theory Spec2Isabelle
  imports Main
begin

section \<open>Objects, errors and the state of a core\<close>

text \<open>
  The TypeScript sources keep every Mediator, Proxy, Observer list and View in the
  JavaScript heap and compare them by identity.  The embedding names an object by a
  number: a \<open>ref\<close> is the identity of an object (a Mediator, a Proxy, a View, or
  whatever is used as a notify context), a \<open>fn\<close> the identity of a function value and
  an \<open>addr\<close> the identity of an array of Observers.
\<close>

type_synonym ref = nat
type_synonym fn = nat
type_synonym addr = nat

datatype error = TypeError | Error string

subsection \<open>Object literals used as maps\<close>

text \<open>
  The registries are object literals (\<open>{}\<close>) typed \<open>Record<string, T>\<close>.  A map
  \<open>string \<rightharpoonup> T\<close> holds the own properties of such an object.  A read \<open>obj[name]\<close>
  that finds no own property goes on to \<open>Object.prototype\<close>, whose members (ECMAScript)
  are functions, given here with their \<open>length\<close>, and the accessor \<open>__proto__\<close>,
  which yields the prototype object itself.  All of them are truthy, none is an array
  (no \<open>push\<close>, no \<open>slice\<close>), none has indexed elements or the methods of a Mediator
  or a Proxy, and the prototype object has no \<open>length\<close>.
\<close>

datatype member = Function nat | PrototypeObject

definition Object_prototype :: "string \<rightharpoonup> member" where
  "Object_prototype =
     [''constructor'' \<mapsto> Function 1, ''hasOwnProperty'' \<mapsto> Function 1,
      ''isPrototypeOf'' \<mapsto> Function 1, ''propertyIsEnumerable'' \<mapsto> Function 1,
      ''toLocaleString'' \<mapsto> Function 0, ''toString'' \<mapsto> Function 0,
      ''valueOf'' \<mapsto> Function 0, ''__proto__'' \<mapsto> PrototypeObject,
      ''__defineGetter__'' \<mapsto> Function 2, ''__defineSetter__'' \<mapsto> Function 2,
      ''__lookupGetter__'' \<mapsto> Function 1, ''__lookupSetter__'' \<mapsto> Function 1]"

text \<open>What a read \<open>obj[name]\<close> yields.\<close>

datatype 'v property = Undefined | Own 'v | Inherited member

definition getProperty :: "(string \<rightharpoonup> 'v) \<Rightarrow> string \<Rightarrow> 'v property" where
  "getProperty obj nm =
     (case obj nm of
        Some v \<Rightarrow> Own v
      | None \<Rightarrow> (case Object_prototype nm of Some f \<Rightarrow> Inherited f | None \<Rightarrow> Undefined))"

text \<open>
  What \<open>obj[name] || null\<close> yields: \<open>null\<close>, a registered object, a member
  inherited from \<open>Object.prototype\<close>, or (for the \<open>proxyMap\<close> of a Model, see there)
  whatever a property read through an application object gives.
\<close>

datatype 'v retrieved = Null | Object 'v | Member member | Through ref string

subsection \<open>Notifications, Observers and the state\<close>

record notification =
  getName :: string
  getBody :: string
  getType :: string

text \<open>
  Modelled from the spec: \<open>Observer.ts\<close> is not among the sources.  An Observer is the
  pair of a handler and the notify context the handler is bound to.
\<close>

record observer =
  notifyMethod :: fn
  notifyContext :: ref

text \<open>
  The calls the registries make into application code (lifecycle hooks, the interest
  query, a handler) are recorded in a log, in the order they are made.
\<close>

datatype event =
    InitializeNotifier ref string
  | ListNotificationInterests ref
  | OnRegister ref
  | OnRemove ref
  | NotifyObserver observer notification

record view =
  multitonKey :: string
  mediatorMap :: "string \<rightharpoonup> ref"
  observerMap :: "string \<rightharpoonup> addr"

text \<open>
  \<open>proxyMap\<close> holds the own properties of the object; \<open>proxyMapPrototype\<close> is the
  Proxy that has become its prototype through an assignment to \<open>__proto__\<close>
  (\<open>None\<close>: the prototype is \<open>Object.prototype\<close>, as the constructor leaves it).
\<close>

record model =
  modelMultitonKey :: string
  proxyMap :: "string \<rightharpoonup> ref"
  proxyMapPrototype :: "ref option"

text \<open>
  The state of one core: its View and its Model, the arrays of Observers the View's
  \<open>observerMap\<close> refers to (\<open>nextAddr\<close> is the next array to be allocated), the call
  log, and the state of the application (\<open>app\<close>), which only application code reads
  and writes.
\<close>

record 'a world =
  view :: view
  model :: model
  arrays :: "addr \<Rightarrow> observer list"
  nextAddr :: addr
  calls :: "event list"
  app :: 'a

text \<open>
  A method that may throw returns the error (\<open>Inl\<close>) or its value (\<open>Inr\<close>), together
  with the state it leaves behind: what was written before a \<open>throw\<close> stays written.
\<close>

type_synonym ('a, 'r) action = "'a world \<Rightarrow> (error + 'r) \<times> 'a world"

text \<open>
  The methods of the Mediators of an application (\<open>IMediator\<close>); they are supplied
  by the application, so the View's methods take them as a parameter.  The name is a
  constant of the object, the interest list may depend on the state, and the hooks may do
  anything to the state, including calls back into the View.
\<close>

record 'a mediators =
  getMediatorName :: "ref \<Rightarrow> string"
  listNotificationInterests :: "ref \<Rightarrow> 'a world \<Rightarrow> string list"
  handleNotification :: "ref \<Rightarrow> fn"
  initializeNotifier :: "ref \<Rightarrow> string \<Rightarrow> ('a, unit) action"
  onRegister :: "ref \<Rightarrow> ('a, unit) action"
  onRemove :: "ref \<Rightarrow> ('a, unit) action"

text \<open>
  The methods of the Proxies of an application (\<open>IProxy\<close>).  \<open>proxySetter q name\<close>
  says what an assignment of the property \<open>name\<close> does when it reaches the Proxy
  \<open>q\<close> as a prototype: \<open>Some s\<close> when the class of \<open>q\<close> has an accessor or a
  read-only property of that name (\<open>s\<close> is the setter, or throws), \<open>None\<close> when it
  lets the assignment through.  (The classes of the application are taken not to
  define \<open>__proto__\<close>.)
\<close>

record 'a proxies =
  getProxyName :: "ref \<Rightarrow> string"
  proxyInitializeNotifier :: "ref \<Rightarrow> string \<Rightarrow> ('a, unit) action"
  proxyOnRegister :: "ref \<Rightarrow> ('a, unit) action"
  proxyOnRemove :: "ref \<Rightarrow> ('a, unit) action"
  proxySetter :: "ref \<Rightarrow> string \<Rightarrow> (ref \<Rightarrow> ('a, unit) action) option"

text \<open>What applying a function value to a receiver and a notification does.\<close>

type_synonym 'a handlers = "fn \<Rightarrow> ref \<Rightarrow> notification \<Rightarrow> ('a, unit) action"

definition invoke :: "event \<Rightarrow> ('a, 'r) action \<Rightarrow> ('a, 'r) action" where
  "invoke ev f w = f (w\<lparr>calls := calls w @ [ev]\<rparr>)"

section \<open>Observer\<close>

text \<open>
  Modelled from the spec: \<open>compareNotifyContext\<close> is the identity comparison of an
  object with the stored context, and \<open>notifyObserver\<close> applies the stored handler
  with the context as receiver and the notification as argument.
\<close>

definition compareNotifyContext :: "observer \<Rightarrow> ref \<Rightarrow> bool" where
  "compareNotifyContext ob obj = (obj = notifyContext ob)"

definition notifyObserver :: "'a handlers \<Rightarrow> observer \<Rightarrow> notification \<Rightarrow> ('a, unit) action" where
  "notifyObserver ap ob n =
     invoke (NotifyObserver ob n) (ap (notifyMethod ob) (notifyContext ob) n)"

section \<open>View\<close>


text \<open>The fields of a View as its constructor leaves them.\<close>

definition View_fields :: "string \<Rightarrow> view" where
  "View_fields key = \<lparr>multitonKey = key, mediatorMap = Map.empty, observerMap = Map.empty\<rparr>"

text \<open>
  \<open>registerObserver\<close>: \<open>push\<close> on the array the map holds, or a new one-element
  array stored under the name.  An inherited member is truthy, and calling its
  \<open>push\<close>, which is \<open>undefined\<close>, throws a TypeError.
\<close>

definition registerObserver :: "string \<Rightarrow> observer \<Rightarrow> ('a, unit) action" where
  "registerObserver notificationName ob w =
     (case getProperty (observerMap (view w)) notificationName of
        Own a \<Rightarrow> (Inr (), w\<lparr>arrays := (arrays w)(a := arrays w a @ [ob])\<rparr>)
      | Inherited f \<Rightarrow> (Inl TypeError, w)
      | Undefined \<Rightarrow>
          (Inr (),
           w\<lparr>view := (view w)\<lparr>observerMap :=
                 (observerMap (view w))(notificationName \<mapsto> nextAddr w)\<rparr>,
             arrays := (arrays w)(nextAddr w := [ob]),
             nextAddr := Suc (nextAddr w)\<rparr>))"

text \<open>\<open>observers.splice(i, 1)\<close>, for \<open>i\<close> within the array.\<close>

definition splice1 :: "'b list \<Rightarrow> nat \<Rightarrow> 'b list" where
  "splice1 xs i = take i xs @ drop (Suc i) xs"

text \<open>
  The loop \<open>while (i--) { ... break; }\<close> of \<open>removeObserver\<close>: the third argument is
  the value of \<open>i\<close> when the condition is tested, the body sees \<open>i - 1\<close>.  It is
  entered with \<open>i = observers.length\<close>, so every read is within the array.
\<close>

fun removeScan :: "observer list \<Rightarrow> ref \<Rightarrow> nat \<Rightarrow> observer list" where
  "removeScan observers notifyCtx 0 = observers"
| "removeScan observers notifyCtx (Suc i) =
     (if compareNotifyContext (observers ! i) notifyCtx then splice1 observers i
      else removeScan observers notifyCtx i)"

text \<open>
  \<open>removeObserver\<close>.  Reading \<open>length\<close> of \<open>undefined\<close> throws a TypeError before
  anything is written.  On an array, the array is spliced in place and the key deleted
  when the array has become empty.  On an inherited function of length 0 the loop is
  skipped and \<open>delete\<close> finds no own property; on one of greater length the first
  element read is \<open>undefined\<close> and the call of its \<open>compareNotifyContext\<close> throws a
  TypeError; on the prototype object \<open>length\<close> is \<open>undefined\<close>, so \<open>i--\<close> is
  \<open>NaN\<close>, the loop is skipped and \<open>undefined == 0\<close> is false.
\<close>

definition removeObserver :: "string \<Rightarrow> ref \<Rightarrow> ('a, unit) action" where
  "removeObserver notificationName notifyCtx w =
     (case getProperty (observerMap (view w)) notificationName of
        Undefined \<Rightarrow> (Inl TypeError, w)
      | Inherited f \<Rightarrow>
          (case f of
             Function len \<Rightarrow> (if len = 0 then (Inr (), w) else (Inl TypeError, w))
           | PrototypeObject \<Rightarrow> (Inr (), w))
      | Own a \<Rightarrow>
          (let observers = removeScan (arrays w a) notifyCtx (length (arrays w a));
               w1 = w\<lparr>arrays := (arrays w)(a := observers)\<rparr>
           in if length observers = 0
              then (Inr (), w1\<lparr>view := (view w1)\<lparr>observerMap :=
                      (observerMap (view w1))(notificationName := None)\<rparr>\<rparr>)
              else (Inr (), w1)))"

text \<open>
  The \<open>for\<close> loop of \<open>notifyObservers\<close> over the copy \<open>observers\<close>; an exception of
  a handler ends it.
\<close>

function notifyLoop ::
  "'a handlers \<Rightarrow> notification \<Rightarrow> observer list \<Rightarrow> nat \<Rightarrow> nat \<Rightarrow> ('a, unit) action" where
  "notifyLoop ap n observers len i w =
     (if i < len
      then (case notifyObserver ap (observers ! i) n w of
              (Inl e, w') \<Rightarrow> (Inl e, w')
            | (Inr u, w') \<Rightarrow> notifyLoop ap n observers len (Suc i) w')
      else (Inr (), w))"
  by pat_completeness auto
termination
  by (relation "measure (\<lambda>(ap, n, observers, len, i, w). len - i)") auto

text \<open>
  \<open>notifyObservers\<close>: \<open>observersRef.slice(0)\<close> reads the array once; the loop then
  works on that copy, whatever the handlers do to the array in the meantime.  An
  inherited member is truthy, and calling its \<open>slice\<close>, which is \<open>undefined\<close>,
  throws a TypeError.
\<close>

definition notifyObservers :: "'a handlers \<Rightarrow> notification \<Rightarrow> ('a, unit) action" where
  "notifyObservers ap n w =
     (case getProperty (observerMap (view w)) (getName n) of
        Undefined \<Rightarrow> (Inr (), w)
      | Inherited f \<Rightarrow> (Inl TypeError, w)
      | Own observersRef \<Rightarrow>
          (let observers = arrays w observersRef;
               len = length observers
           in notifyLoop ap n observers len 0 w))"

text \<open>
  The loop \<open>for (i = 0; i < len; i++) registerObserver(interests[i], observer)\<close>; a
  TypeError of \<open>registerObserver\<close> ends it.
\<close>

function registerLoop :: "string list \<Rightarrow> observer \<Rightarrow> nat \<Rightarrow> nat \<Rightarrow> ('a, unit) action" where
  "registerLoop interests ob len i w =
     (if i < len
      then (case registerObserver (interests ! i) ob w of
              (Inl e, w') \<Rightarrow> (Inl e, w')
            | (Inr u, w') \<Rightarrow> registerLoop interests ob len (Suc i) w')
      else (Inr (), w))"
  by pat_completeness auto
termination
  by (relation "measure (\<lambda>(interests, ob, len, i, w). len - i)") auto

text \<open>
  \<open>registerMediator\<close>.  The guard \<open>if (this.mediatorMap[name]) return\<close> is taken by
  a registered Mediator and by an inherited member alike.
\<close>

definition registerMediator :: "'a mediators \<Rightarrow> ref \<Rightarrow> ('a, unit) action" where
  "registerMediator mc mediator w =
     (let nm = getMediatorName mc mediator in
      if getProperty (mediatorMap (view w)) nm \<noteq> Undefined then (Inr (), w)
      else
        (case invoke (InitializeNotifier mediator (multitonKey (view w)))
                (initializeNotifier mc mediator (multitonKey (view w))) w of
           (Inl e, w1) \<Rightarrow> (Inl e, w1)
         | (Inr u, w1) \<Rightarrow>
             (let w2 = w1\<lparr>view := (view w1)\<lparr>mediatorMap := (mediatorMap (view w1))(nm \<mapsto> mediator)\<rparr>\<rparr>;
                  w3 = w2\<lparr>calls := calls w2 @ [ListNotificationInterests mediator]\<rparr>;
                  interests = listNotificationInterests mc mediator w3;
                  len = length interests
              in case (if len > 0
                       then registerLoop interests
                              \<lparr>notifyMethod = handleNotification mc mediator,
                               notifyContext = mediator\<rparr> len 0 w3
                       else (Inr (), w3)) of
                   (Inl e, w4) \<Rightarrow> (Inl e, w4)
                 | (Inr u', w4) \<Rightarrow> invoke (OnRegister mediator) (onRegister mc mediator) w4)))"

text \<open>\<open>retrieveMediator\<close>: \<open>this.mediatorMap[mediatorName] || null\<close>.\<close>

definition retrieveMediator :: "string \<Rightarrow> 'a world \<Rightarrow> ref retrieved" where
  "retrieveMediator mediatorName w =
     (case getProperty (mediatorMap (view w)) mediatorName of
        Undefined \<Rightarrow> Null
      | Own mediator \<Rightarrow> Object mediator
      | Inherited f \<Rightarrow> Member f)"

text \<open>
  The loop \<open>while (i--) this.removeObserver(interests[i], mediator)\<close>: from the last
  interest to the first; a TypeError of \<open>removeObserver\<close> ends it.
\<close>

fun removeLoop :: "string list \<Rightarrow> ref \<Rightarrow> nat \<Rightarrow> ('a, unit) action" where
  "removeLoop interests mediator 0 w = (Inr (), w)"
| "removeLoop interests mediator (Suc i) w =
     (case removeObserver (interests ! i) mediator w of
        (Inl e, w') \<Rightarrow> (Inl e, w')
      | (Inr u, w') \<Rightarrow> removeLoop interests mediator i w')"

text \<open>
  \<open>removeMediator\<close> returns \<open>null\<close> (\<open>None\<close>) or the Mediator it has removed.  An
  inherited member passes the guard \<open>if (!mediator)\<close>, and calling its
  \<open>listNotificationInterests\<close>, which is \<open>undefined\<close>, throws a TypeError.
\<close>

definition removeMediator :: "'a mediators \<Rightarrow> string \<Rightarrow> ('a, ref option) action" where
  "removeMediator mc mediatorName w =
     (case getProperty (mediatorMap (view w)) mediatorName of
        Undefined \<Rightarrow> (Inr None, w)
      | Inherited f \<Rightarrow> (Inl TypeError, w)
      | Own mediator \<Rightarrow>
          (let w1 = w\<lparr>calls := calls w @ [ListNotificationInterests mediator]\<rparr>;
               interests = listNotificationInterests mc mediator w1
           in case removeLoop interests mediator (length interests) w1 of
                (Inl e, w2) \<Rightarrow> (Inl e, w2)
              | (Inr u, w2) \<Rightarrow>
                  (let w3 = w2\<lparr>view := (view w2)\<lparr>mediatorMap :=
                                 (mediatorMap (view w2))(mediatorName := None)\<rparr>\<rparr>
                   in case invoke (OnRemove mediator) (onRemove mc mediator) w3 of
                        (Inl e, w4) \<Rightarrow> (Inl e, w4)
                      | (Inr u', w4) \<Rightarrow> (Inr (Some mediator), w4))))"

text \<open>\<open>hasMediator\<close>: \<open>this.mediatorMap[mediatorName] != null\<close>.\<close>

definition hasMediator :: "string \<Rightarrow> 'a world \<Rightarrow> bool" where
  "hasMediator mediatorName w = (getProperty (mediatorMap (view w)) mediatorName \<noteq> Undefined)"

section \<open>Model\<close>


text \<open>The fields of a Model as its constructor leaves them.\<close>

definition Model_fields :: "string \<Rightarrow> model" where
  "Model_fields key =
     \<lparr>modelMultitonKey = key, proxyMap = Map.empty, proxyMapPrototype = None\<rparr>"

text \<open>
  The assignment \<open>this.proxyMap[name] = proxy\<close>.  An own property is overwritten.
  Otherwise the assignment goes up the prototype chain: a Proxy that has become the
  prototype may intercept it; at \<open>Object.prototype\<close> the setter of \<open>__proto__\<close>
  makes the Proxy the prototype of \<open>proxyMap\<close>, and any other name becomes an own
  property.
\<close>

definition setProxy :: "'a proxies \<Rightarrow> string \<Rightarrow> ref \<Rightarrow> ('a, unit) action" where
  "setProxy pc nm proxy w =
     (let own = (Inr (), w\<lparr>model := (model w)\<lparr>proxyMap := (proxyMap (model w))(nm \<mapsto> proxy)\<rparr>\<rparr>);
          proto = (Inr (), w\<lparr>model := (model w)\<lparr>proxyMapPrototype := Some proxy\<rparr>\<rparr>)
      in if proxyMap (model w) nm \<noteq> None then own
         else if nm = ''__proto__'' then proto
         else (case proxyMapPrototype (model w) of
                 None \<Rightarrow> own
               | Some q \<Rightarrow> (case proxySetter pc q nm of None \<Rightarrow> own | Some s \<Rightarrow> s proxy w)))"

definition registerProxy :: "'a proxies \<Rightarrow> ref \<Rightarrow> ('a, unit) action" where
  "registerProxy pc proxy w =
     (case invoke (InitializeNotifier proxy (modelMultitonKey (model w)))
             (proxyInitializeNotifier pc proxy (modelMultitonKey (model w))) w of
        (Inl e, w1) \<Rightarrow> (Inl e, w1)
      | (Inr u, w1) \<Rightarrow>
          (case setProxy pc (getProxyName pc proxy) proxy w1 of
             (Inl e, w2) \<Rightarrow> (Inl e, w2)
           | (Inr u', w2) \<Rightarrow> invoke (OnRegister proxy) (proxyOnRegister pc proxy) w2))"

text \<open>
  \<open>retrieveProxy\<close>: \<open>this.proxyMap[proxyName] || null\<close>.  When a Proxy \<open>q\<close> has
  become the prototype, \<open>__proto__\<close> reads as \<open>q\<close> and any other name that is no
  own property is read through \<open>q\<close>.
\<close>

definition retrieveProxy :: "string \<Rightarrow> 'a world \<Rightarrow> ref retrieved" where
  "retrieveProxy proxyName w =
     (case proxyMap (model w) proxyName of
        Some proxy \<Rightarrow> Object proxy
      | None \<Rightarrow>
          (case proxyMapPrototype (model w) of
             Some q \<Rightarrow> (if proxyName = ''__proto__'' then Object q else Through q proxyName)
           | None \<Rightarrow>
               (case Object_prototype proxyName of Some f \<Rightarrow> Member f | None \<Rightarrow> Null)))"

section \<open>The multiton factories\<close>

text \<open>
  The static members \<open>View.instanceMap\<close> and \<open>Model.instanceMap\<close>, and the View and
  Model objects that exist; \<open>nextRef\<close> is the identity the next \<open>new\<close> gives out.
\<close>

record statics =
  View_instanceMap :: "string \<rightharpoonup> ref"
  Model_instanceMap :: "string \<rightharpoonup> ref"
  viewObjects :: "ref \<rightharpoonup> view"
  modelObjects :: "ref \<rightharpoonup> model"
  nextRef :: ref



definition removeView :: "string \<Rightarrow> statics \<Rightarrow> statics" where
  "removeView key g = g\<lparr>View_instanceMap := (View_instanceMap g)(key := None)\<rparr>"



definition removeModel :: "string \<Rightarrow> statics \<Rightarrow> statics" where
  "removeModel key g = g\<lparr>Model_instanceMap := (Model_instanceMap g)(key := None)\<rparr>"


section \<open>A core, the base classes and the Mediator of the View test\<close>

text \<open>A core whose View and Model have just been constructed for \<open>key\<close>.\<close>

definition newCore :: "string \<Rightarrow> 'a \<Rightarrow> 'a world" where
  "newCore key a = \<lparr>view = View_fields key, model = Model_fields key, arrays = (\<lambda>a. []),
     nextAddr = 0, calls = [], app = a\<rparr>"

text \<open>
  Modelled from the spec: \<open>Notifier.ts\<close> and \<open>Mediator.ts\<close> are not among the sources.
  \<open>initializeNotifier\<close> binds the key inside the Notifier, which is no part of the state
  of the registries, and the lifecycle hooks of the base classes do nothing.
\<close>

definition noop :: "('a, unit) action" where
  "noop w = (Inr (), w)"

text \<open>
  The base class \<open>Proxy\<close> (\<open>Proxy.ts\<close>): \<open>getProxyName\<close> returns the name the Proxy
  was constructed with, \<open>onRegister\<close> and \<open>onRemove\<close> are no-ops.  Its fields and
  methods are writable data properties; the accessors it may inherit from \<open>Notifier\<close>
  are a parameter.
\<close>

definition Proxy ::
  "(ref \<Rightarrow> string) \<Rightarrow> (ref \<Rightarrow> string \<Rightarrow> (ref \<Rightarrow> ('a, unit) action) option) \<Rightarrow> 'a proxies" where
  "Proxy proxyName accessors = \<lparr>getProxyName = proxyName,
     proxyInitializeNotifier = (\<lambda>p key. noop),
     proxyOnRegister = (\<lambda>p. noop),
     proxyOnRemove = (\<lambda>p. noop),
     proxySetter = accessors\<rparr>"

text \<open>
  \<open>ViewTestMediator6\<close>: interested in the one notification \<open>ViewTest.NOTE6\<close> (a
  constant of the test, taken as a parameter), its \<open>onRemove\<close> increments
  \<open>counter\<close> of the view component, which is the application state here.
\<close>

definition ViewTestMediator6_handleNotification :: fn where
  "ViewTestMediator6_handleNotification = 6"

definition ViewTestMediator6 :: "string \<Rightarrow> (ref \<Rightarrow> string) \<Rightarrow> int mediators" where
  "ViewTestMediator6 NOTE6 mediatorName = \<lparr>getMediatorName = mediatorName,
     listNotificationInterests = (\<lambda>m w. [NOTE6]),
     handleNotification = (\<lambda>m. ViewTestMediator6_handleNotification),
     initializeNotifier = (\<lambda>m key. noop),
     onRegister = (\<lambda>m. noop),
     onRemove = (\<lambda>m w. (Inr (), w\<lparr>app := app w + 1\<rparr>))\<rparr>"

text \<open>
  Modelled from the spec: the Facade is not among the sources; its \<open>removeMediator\<close>
  delegates to the View of the core.
\<close>

definition facade_removeMediator :: "'a mediators \<Rightarrow> string \<Rightarrow> ('a, ref option) action" where
  "facade_removeMediator mc mediatorName w = removeMediator mc mediatorName w"

text \<open>
  The handler of \<open>ViewTestMediator6\<close>, for a Mediator of any class \<open>mc\<close>:
  \<open>this.facade.removeMediator(this.getMediatorName())\<close>, the value returned being
  dropped.
\<close>

definition removeSelf :: "'a mediators \<Rightarrow> ref \<Rightarrow> ('a, unit) action" where
  "removeSelf mc this w =
     (case facade_removeMediator mc (getMediatorName mc this) w of
        (Inl e, w') \<Rightarrow> (Inl e, w')
      | (Inr r, w') \<Rightarrow> (Inr (), w'))"

text \<open>
  Applying a function value in the View test: the handler of \<open>ViewTestMediator6\<close>; no
  other function does anything.
\<close>

definition ViewTest_apply :: "string \<Rightarrow> (ref \<Rightarrow> string) \<Rightarrow> int handlers" where
  "ViewTest_apply NOTE6 mediatorName f this n w =
     (if f = ViewTestMediator6_handleNotification
      then removeSelf (ViewTestMediator6 NOTE6 mediatorName) this w
      else (Inr (), w))"

section \<open>Notions used to state the properties\<close>

text \<open>The Observer sequence of a notification name; empty when the name has no entry.\<close>

definition observers :: "'a world \<Rightarrow> string \<Rightarrow> observer list" where
  "observers w notificationName =
     (case observerMap (view w) notificationName of None \<Rightarrow> [] | Some a \<Rightarrow> arrays w a)"

text \<open>
  Delivery of a notification to a sequence of Observers, one after the other from the
  first to the last, each exactly once; an exception of a handler ends the delivery.
\<close>

fun deliver :: "'a handlers \<Rightarrow> notification \<Rightarrow> observer list \<Rightarrow> ('a, unit) action" where
  "deliver ap n [] w = (Inr (), w)"
| "deliver ap n (ob # obs) w =
     (case notifyObserver ap ob n w of
        (Inl e, w') \<Rightarrow> (Inl e, w')
      | (Inr u, w') \<Rightarrow> deliver ap n obs w')"

text \<open>
  The arrays of the View are well formed: two names never share an array, and every
  array in use has been allocated.  The constructor and every method of the View keep
  it so.
\<close>

definition separate :: "'a world \<Rightarrow> bool" where
  "separate w =
     ((\<forall>n n' a. observerMap (view w) n = Some a \<and> observerMap (view w) n' = Some a \<longrightarrow> n = n') \<and>
      (\<forall>n a. observerMap (view w) n = Some a \<longrightarrow> a < nextAddr w))"

text \<open>No notification name is mapped to an empty sequence.\<close>

definition noEmptySequence :: "'a world \<Rightarrow> bool" where
  "noEmptySequence w = (\<forall>n a. observerMap (view w) n = Some a \<longrightarrow> arrays w a \<noteq> [])"

text \<open>
  A call of \<open>registerObserver\<close> or of \<open>removeObserver\<close>, and a sequence of them; a
  call that throws leaves its state to the next call.
\<close>

datatype observerCall = RegisterObserver string observer | RemoveObserver string ref

fun runCall :: "observerCall \<Rightarrow> 'a world \<Rightarrow> 'a world" where
  "runCall (RegisterObserver notificationName ob) w =
     snd (registerObserver notificationName ob w)"
| "runCall (RemoveObserver notificationName notifyCtx) w =
     snd (removeObserver notificationName notifyCtx w)"

fun runCalls :: "observerCall list \<Rightarrow> 'a world \<Rightarrow> 'a world" where
  "runCalls [] w = w"
| "runCalls (c # cs) w = runCalls cs (runCall c w)"

text \<open>
  \<open>registerObserver\<close>, and \<open>removeObserver\<close>, for each name of a list in turn, from
  the first name on, until one throws.
\<close>

fun registerEach :: "string list \<Rightarrow> observer \<Rightarrow> ('a, unit) action" where
  "registerEach [] ob w = (Inr (), w)"
| "registerEach (n # ns) ob w =
     (case registerObserver n ob w of
        (Inl e, w') \<Rightarrow> (Inl e, w')
      | (Inr u, w') \<Rightarrow> registerEach ns ob w')"

fun removeEach :: "string list \<Rightarrow> ref \<Rightarrow> ('a, unit) action" where
  "removeEach [] mediator w = (Inr (), w)"
| "removeEach (n # ns) mediator w =
     (case removeObserver n mediator w of
        (Inl e, w') \<Rightarrow> (Inl e, w')
      | (Inr u, w') \<Rightarrow> removeEach ns mediator w')"

text \<open>
  A sequence after \<open>k\<close> removals for one context: each removal is the scan of
  \<open>removeObserver\<close>, which takes out the last Observer of that context, if there is
  one.
\<close>

fun removeTimes :: "nat \<Rightarrow> ref \<Rightarrow> observer list \<Rightarrow> observer list" where
  "removeTimes 0 c xs = xs"
| "removeTimes (Suc k) c xs = removeTimes k c (removeScan xs c (length xs))"

text \<open>
  A hook that returns normally and touches nothing but the state of the application.
\<close>

definition appOnly :: "('a, unit) action \<Rightarrow> bool" where
  "appOnly h = (\<forall>w. \<exists>a. h w = (Inr (), w\<lparr>app := a\<rparr>))"

text \<open>How often the View has asked a Mediator for its notification interests.\<close>

definition interestQueries :: "ref \<Rightarrow> 'a world \<Rightarrow> nat" where
  "interestQueries m w = length (filter (\<lambda>ev. ev = ListNotificationInterests m) (calls w))"

section \<open>States of the View test\<close>

text \<open>
  The names of the Mediators of the test, the notification \<open>N6\<close>, and the core after
  one and after two instances of \<open>ViewTestMediator6\<close> have been registered.
\<close>

definition testName :: "ref \<Rightarrow> string" where
  "testName m = (if m = 1 then ''ViewTestMediator6/1'' else ''ViewTestMediator6/2'')"

definition testNote :: notification where
  "testNote = \<lparr>getName = ''N6'', getBody = [], getType = []\<rparr>"

definition testObserver :: "ref \<Rightarrow> observer" where
  "testObserver m = \<lparr>notifyMethod = ViewTestMediator6_handleNotification, notifyContext = m\<rparr>"

definition oneMediator :: "int world" where
  "oneMediator = snd (registerMediator (ViewTestMediator6 ''N6'' testName) 1 (newCore ''key'' 0))"


text \<open>A sequence in which the context 1 occurs twice, around the context 2.\<close>

definition threeObservers :: "int world" where
  "threeObservers =
     runCalls [RegisterObserver ''N6'' (testObserver 1), RegisterObserver ''N6'' (testObserver 2),
               RegisterObserver ''N6'' (testObserver 1)] (newCore ''key'' 0)"

text \<open>
  An Observer of another kind (its handler is the function 7, which does nothing), and
  the core in which the Mediator 1 of the test has been registered after one such
  Observer and before another.
\<close>

definition otherObserver :: "ref \<Rightarrow> observer" where
  "otherObserver c = \<lparr>notifyMethod = 7, notifyContext = c\<rparr>"

definition amongOthers :: "int world" where
  "amongOthers =
     snd (registerObserver ''N6'' (otherObserver 9)
       (snd (registerMediator (ViewTestMediator6 ''N6'' testName) 1
         (snd (registerObserver ''N6'' (otherObserver 8) (newCore ''key'' 0))))))"



text \<open>A core in which the Proxy 1 is registered under the name \<open>P\<close>.\<close>

definition oneProxy :: "int world" where
  "oneProxy = snd (registerProxy (Proxy (\<lambda>p. ''P'') (\<lambda>q nm. None)) 1 (newCore ''key'' 0))"


section \<open>Evaluating the reads and the loops\<close>

declare notifyLoop.simps [simp del]
declare registerLoop.simps [simp del]

lemma getProperty_Own: "obj nm = Some v \<Longrightarrow> getProperty obj nm = Own v"
  by (simp add: getProperty_def)

lemma getProperty_Undefined:
  "obj nm = None \<Longrightarrow> Object_prototype nm = None \<Longrightarrow> getProperty obj nm = Undefined"
  by (simp add: getProperty_def)

lemma getProperty_Inherited:
  "obj nm = None \<Longrightarrow> Object_prototype nm = Some f \<Longrightarrow> getProperty obj nm = Inherited f"
  by (simp add: getProperty_def)


lemma getProperty_Own_iff: "(getProperty obj nm = Own v) = (obj nm = Some v)"
  by (simp add: getProperty_def split: option.splits)

lemma getProperty_Inherited_iff:
  "(getProperty obj nm = Inherited f) = (obj nm = None \<and> Object_prototype nm = Some f)"
  by (simp add: getProperty_def split: option.splits)

text \<open>The names of the View test are not inherited; \<open>toString\<close> and \<open>constructor\<close> are.\<close>

lemma test_names:
  "Object_prototype ''N6'' = None"
  "Object_prototype ''ViewTestMediator6/1'' = None"
  "Object_prototype ''ViewTestMediator6/2'' = None"
  "Object_prototype ''key'' = None"
  "Object_prototype ''P'' = None"
  "Object_prototype (testName m) = None"
  by (simp_all add: Object_prototype_def testName_def)

lemma inherited_names:
  "Object_prototype ''toString'' = Some (Function 0)"
  "Object_prototype ''constructor'' = Some (Function 1)"
  by (simp_all add: Object_prototype_def)

lemma notifyLoop_deliver:
  "i \<le> length obs \<Longrightarrow> notifyLoop ap n obs (length obs) i w = deliver ap n (drop i obs) w"
proof (induction "length obs - i" arbitrary: i w)
  case 0
  then show ?case by (simp add: notifyLoop.simps)
next
  case (Suc k)
  then have lt: "i < length obs" by simp
  have d: "drop i obs = obs ! i # drop (Suc i) obs"
    using lt by (simp add: Cons_nth_drop_Suc)
  have ih: "\<And>w'. notifyLoop ap n obs (length obs) (Suc i) w' = deliver ap n (drop (Suc i) obs) w'"
    using Suc lt by simp
  show ?case
    by (subst notifyLoop.simps) (simp add: lt d ih split: prod.splits sum.splits)
qed

lemma notifyObservers_deliver:
  "notifyObservers ap n w =
     (case getProperty (observerMap (view w)) (getName n) of
        Undefined \<Rightarrow> (Inr (), w)
      | Inherited f \<Rightarrow> (Inl TypeError, w)
      | Own a \<Rightarrow> deliver ap n (arrays w a) w)"
  by (simp add: notifyObservers_def Let_def notifyLoop_deliver split: property.splits)

lemma registerLoop_registerEach:
  "i \<le> length ns \<Longrightarrow>
   registerLoop ns ob (length ns) i w = registerEach (drop i ns) ob w"
proof (induction "length ns - i" arbitrary: i w)
  case 0
  then show ?case by (simp add: registerLoop.simps)
next
  case (Suc k)
  then have lt: "i < length ns" by simp
  have d: "drop i ns = ns ! i # drop (Suc i) ns"
    using lt by (simp add: Cons_nth_drop_Suc)
  have ih: "registerLoop ns ob (length ns) (Suc i) w' = registerEach (drop (Suc i) ns) ob w'"
    for w' :: "'a world"
    using Suc.hyps(1)[of "Suc i" w'] Suc.hyps(2) lt by simp
  show ?case
    by (subst registerLoop.simps) (simp add: lt d ih split: prod.splits sum.splits)
qed

lemma registerLoop_all:
  "len = length ns \<Longrightarrow> registerLoop ns ob len 0 w = registerEach ns ob w"
  using registerLoop_registerEach[of 0 ns ob w] by simp


lemma deliver_append:
  "deliver ap n (xs @ ys) w =
     (case deliver ap n xs w of
        (Inl e, w') \<Rightarrow> (Inl e, w')
      | (Inr u, w') \<Rightarrow> deliver ap n ys w')"
  by (induction xs arbitrary: w) (simp_all split: prod.splits sum.splits)

text \<open>
  When the name has a sequence, or is not inherited, \<open>notifyObservers\<close> is the
  delivery to the sequence of the name.
\<close>

lemma notifyObservers_observers:
  "observerMap (view w) (getName n) \<noteq> None \<or> Object_prototype (getName n) = None \<Longrightarrow>
   notifyObservers ap n w = deliver ap n (observers w (getName n)) w"
  by (auto simp: notifyObservers_deliver observers_def getProperty_def split: option.splits)

lemma appOnly_invoke:
  "appOnly h \<Longrightarrow> \<exists>a. invoke ev h w = (Inr (), w\<lparr>calls := calls w @ [ev], app := a\<rparr>)"
  unfolding appOnly_def invoke_def
  by (metis (no_types, lifting) world.surjective world.update_convs(5,6))

lemma appOnly_noop: "appOnly noop"
  unfolding appOnly_def noop_def
proof
  fix w :: "'a world"
  show "\<exists>a. (Inr (), w) = (Inr (), w\<lparr>app := a\<rparr>)"
    by (rule exI[of _ "app w"]) simp
qed

text \<open>
  Delivery to Observers whose handlers touch only the state of the application: it
  returns normally, logs one call per Observer, in order, and leaves the View alone.
\<close>

lemma deliver_appOnly:
  assumes "\<forall>ob\<in>set obs. appOnly (ap (notifyMethod ob) (notifyContext ob) n)"
  shows "\<exists>a. deliver ap n obs w =
           (Inr (), w\<lparr>calls := calls w @ map (\<lambda>ob. NotifyObserver ob n) obs, app := a\<rparr>)"
  using assms
proof (induction obs arbitrary: w)
  case Nil
  show ?case by (simp, rule exI[of _ "app w"], simp)
next
  case (Cons ob obs)
  have "appOnly (ap (notifyMethod ob) (notifyContext ob) n)" using Cons.prems by simp
  then obtain a where a: "notifyObserver ap ob n w =
      (Inr (), w\<lparr>calls := calls w @ [NotifyObserver ob n], app := a\<rparr>)"
    unfolding notifyObserver_def using appOnly_invoke by blast
  have "\<forall>ob\<in>set obs. appOnly (ap (notifyMethod ob) (notifyContext ob) n)"
    using Cons.prems by simp
  from Cons.IH[of "w\<lparr>calls := calls w @ [NotifyObserver ob n], app := a\<rparr>"] this
  obtain a' where "deliver ap n obs (w\<lparr>calls := calls w @ [NotifyObserver ob n], app := a\<rparr>) =
           (Inr (), w\<lparr>calls := calls w @ [NotifyObserver ob n], app := a\<rparr>
              \<lparr>calls := calls (w\<lparr>calls := calls w @ [NotifyObserver ob n], app := a\<rparr>) @
                         map (\<lambda>ob. NotifyObserver ob n) obs, app := a'\<rparr>)"
    by blast
  then have "deliver ap n (ob # obs) w =
           (Inr (), w\<lparr>calls := calls w @ map (\<lambda>ob. NotifyObserver ob n) (ob # obs), app := a'\<rparr>)"
    using a by simp
  then show ?case by blast
qed

lemma deliver_appOnly_calls:
  assumes "\<forall>f c. appOnly (ap f c n)"
  shows "fst (deliver ap n obs w) = Inr () \<and>
         calls (snd (deliver ap n obs w)) = calls w @ map (\<lambda>ob. NotifyObserver ob n) obs"
proof -
  have "\<forall>ob\<in>set obs. appOnly (ap (notifyMethod ob) (notifyContext ob) n)"
    using assms by blast
  then obtain a where
    "deliver ap n obs w =
       (Inr (), w\<lparr>calls := calls w @ map (\<lambda>ob. NotifyObserver ob n) obs, app := a\<rparr>)"
    using deliver_appOnly[of obs ap n w] by blast
  then show ?thesis by simp
qed


lemma registerObserver_inherited:
  "observerMap (view w) nm = None \<Longrightarrow> Object_prototype nm = Some f \<Longrightarrow>
   registerObserver nm ob w = (Inl TypeError, w)"
  by (simp add: registerObserver_def getProperty_def)

text \<open>The definitions a run of the View test unfolds.\<close>

lemmas scenario_defs = newCore_def View_fields_def Model_fields_def ViewTestMediator6_def
  ViewTest_apply_def removeSelf_def facade_removeMediator_def
  ViewTestMediator6_handleNotification_def
  noop_def invoke_def registerMediator_def removeMediator_def removeObserver_def
  registerObserver_def notifyObserver_def compareNotifyContext_def splice1_def
  registerLoop_all notifyObservers_deliver Let_def testName_def testNote_def testObserver_def
  otherObserver_def observers_def retrieveMediator_def getProperty_def test_names
  inherited_names

lemma oneMediator_eq:
  "oneMediator =
     \<lparr>view = \<lparr>multitonKey = ''key'', mediatorMap = [''ViewTestMediator6/1'' \<mapsto> 1],
               observerMap = [''N6'' \<mapsto> 0]\<rparr>,
      model = Model_fields ''key'',
      arrays = (\<lambda>a. [])(0 := [testObserver 1]),
      nextAddr = Suc 0,
      calls = [InitializeNotifier 1 ''key'', ListNotificationInterests 1, OnRegister 1],
      app = 0\<rparr>"
  by (simp add: oneMediator_def scenario_defs)


lemma amongOthers_eq:
  "amongOthers =
     \<lparr>view = \<lparr>multitonKey = ''key'', mediatorMap = [''ViewTestMediator6/1'' \<mapsto> 1],
               observerMap = [''N6'' \<mapsto> 0]\<rparr>,
      model = Model_fields ''key'',
      arrays = (\<lambda>a. [])(0 := [otherObserver 8, testObserver 1, otherObserver 9]),
      nextAddr = Suc 0,
      calls = [InitializeNotifier 1 ''key'', ListNotificationInterests 1, OnRegister 1],
      app = 0\<rparr>"
  by (simp add: amongOthers_def scenario_defs)

section \<open>Delivery of a notification\<close>




section \<open>The Observer sequences are never empty\<close>

lemma removeScan_length_le: "length (removeScan xs c i) \<le> length xs"
  by (induction i) (auto simp: splice1_def)

lemma separate_registerObserver: "separate w \<Longrightarrow> separate (snd (registerObserver n ob w))"
  unfolding separate_def registerObserver_def getProperty_def
  by (cases "observerMap (view w) n"; cases "Object_prototype n") (fastforce split: if_splits)+

lemma noEmptySequence_registerObserver:
  "separate w \<Longrightarrow> noEmptySequence w \<Longrightarrow> noEmptySequence (snd (registerObserver n ob w))"
  unfolding separate_def noEmptySequence_def registerObserver_def getProperty_def
  by (cases "observerMap (view w) n"; cases "Object_prototype n") (fastforce split: if_splits)+

lemma separate_removeObserver: "separate w \<Longrightarrow> separate (snd (removeObserver n c w))"
  unfolding separate_def removeObserver_def getProperty_def
  by (cases "observerMap (view w) n")
     (auto simp: Let_def split: if_splits option.splits member.splits)

lemma noEmptySequence_removeObserver:
  "separate w \<Longrightarrow> noEmptySequence w \<Longrightarrow> noEmptySequence (snd (removeObserver n c w))"
  unfolding separate_def noEmptySequence_def removeObserver_def getProperty_def
  by (cases "observerMap (view w) n")
     (auto simp: Let_def split: if_splits option.splits member.splits)

lemma invariant_runCall:
  "separate w \<and> noEmptySequence w \<Longrightarrow> separate (runCall c w) \<and> noEmptySequence (runCall c w)"
  by (cases c)
     (simp_all add: separate_registerObserver noEmptySequence_registerObserver
        separate_removeObserver noEmptySequence_removeObserver)

lemma invariant_runCalls:
  "separate w \<and> noEmptySequence w \<Longrightarrow>
   separate (runCalls cs w) \<and> noEmptySequence (runCalls cs w)"
proof (induction cs arbitrary: w)
  case Nil
  then show ?case by simp
next
  case (Cons c cs)
  show ?case using Cons.IH[OF invariant_runCall[OF Cons.prems]] by simp
qed

lemma invariant_newCore: "separate (newCore key a) \<and> noEmptySequence (newCore key a)"
  by (simp add: separate_def noEmptySequence_def newCore_def View_fields_def)

lemma observers_empty_iff:
  "noEmptySequence w \<Longrightarrow> (observers w n = []) = (observerMap (view w) n = None)"
  by (auto simp: noEmptySequence_def observers_def split: option.splits)

lemma removeObserver_deletes_emptied:
  "observers (snd (removeObserver n c w)) n = [] \<Longrightarrow>
   observerMap (view (snd (removeObserver n c w))) n = None"
  by (cases "observerMap (view w) n")
     (auto simp: removeObserver_def observers_def Let_def getProperty_def
           split: if_splits option.splits member.splits)

lemma removeObserver_last_one:
  "observers w n = [ob] \<Longrightarrow>
   observerMap (view (snd (removeObserver n (notifyContext ob) w))) n = None"
  by (cases "observerMap (view w) n")
     (auto simp: removeObserver_def observers_def Let_def compareNotifyContext_def splice1_def
           getProperty_def)

text \<open>
  C2.  After any sequence of \<open>registerObserver\<close> and \<open>removeObserver\<close> calls on a
  newly constructed View, no notification name is mapped to an empty sequence: a name has
  an entry in \<open>observerMap\<close> exactly when it has an Observer.  The same holds from any
  state in which no name is mapped to an empty sequence and no two names share an array.
  In any state, when \<open>removeObserver\<close> removes the only Observer of a name, or leaves
  the sequence of the name empty, the name has no entry afterwards.
\<close>

theorem observerMap_never_empty_sequence:
  "noEmptySequence (runCalls cs (newCore key a)) \<and>
   (\<forall>n. (observerMap (view (runCalls cs (newCore key a))) n = None) =
           (observers (runCalls cs (newCore key a)) n = [])) \<and>
   (separate w \<and> noEmptySequence w \<longrightarrow>
      separate (runCalls cs w) \<and> noEmptySequence (runCalls cs w)) \<and>
   (observers w n = [ob] \<longrightarrow>
      observerMap (view (snd (removeObserver n (notifyContext ob) w))) n = None) \<and>
   (observers (snd (removeObserver n c w)) n = [] \<longrightarrow>
      observerMap (view (snd (removeObserver n c w))) n = None)"
proof -
  have i: "separate (runCalls cs (newCore key a)) \<and> noEmptySequence (runCalls cs (newCore key a))"
    by (rule invariant_runCalls[OF invariant_newCore])
  show ?thesis
    using i invariant_runCalls[of w cs] removeObserver_last_one[of w n ob]
      removeObserver_deletes_emptied[of n c w]
    by (simp add: observers_empty_iff)
qed

text \<open>
  Two Observers are registered for \<open>N6\<close> and both removed again: the name is gone.
  In between, with one Observer left, the removal of that one deletes the name.
\<close>

theorem observerMap_never_empty_sequence_witness:
  "noEmptySequence
     (runCalls [RegisterObserver ''N6'' (testObserver 1), RegisterObserver ''N6'' (testObserver 2),
                RemoveObserver ''N6'' 1, RemoveObserver ''N6'' 2] (newCore ''key'' (0::int))) \<and>
   observerMap (view
     (runCalls [RegisterObserver ''N6'' (testObserver 1), RegisterObserver ''N6'' (testObserver 2),
                RemoveObserver ''N6'' 1, RemoveObserver ''N6'' 2] (newCore ''key'' (0::int)))) ''N6''
     = None \<and>
   separate (runCalls [RegisterObserver ''N6'' (testObserver 2)] (newCore ''key'' (0::int))) \<and>
   noEmptySequence (runCalls [RegisterObserver ''N6'' (testObserver 2)] (newCore ''key'' (0::int))) \<and>
   observers (runCalls [RegisterObserver ''N6'' (testObserver 2)] (newCore ''key'' (0::int))) ''N6''
     = [testObserver 2] \<and>
   observerMap (view (snd (removeObserver ''N6'' (notifyContext (testObserver 2))
      (runCalls [RegisterObserver ''N6'' (testObserver 2)] (newCore ''key'' (0::int)))))) ''N6''
     = None"
proof -
  let ?cs = "[RegisterObserver ''N6'' (testObserver 1), RegisterObserver ''N6'' (testObserver 2),
              RemoveObserver ''N6'' 1, RemoveObserver ''N6'' 2]"
  let ?w0 = "newCore ''key'' (0::int)"
  let ?w1 = "runCalls [RegisterObserver ''N6'' (testObserver 2)] ?w0"
  note T = observerMap_never_empty_sequence
             [of ?cs "''key''" "0::int" ?w1 "''N6''" "testObserver 2" 2]
  have i1: "separate ?w1 \<and> noEmptySequence ?w1"
    by (rule invariant_runCalls[OF invariant_newCore])
  have o: "observers ?w1 ''N6'' = [testObserver 2]"
    by (simp add: scenario_defs)
  have e: "observers (runCalls ?cs ?w0) ''N6'' = []"
    by (simp add: scenario_defs)
  have A: "noEmptySequence (runCalls ?cs ?w0)"
    using T by (rule conjunct1)
  have "\<forall>n. (observerMap (view (runCalls ?cs ?w0)) n = None) = (observers (runCalls ?cs ?w0) n = [])"
    using T by (elim conjE)
  then have B: "observerMap (view (runCalls ?cs ?w0)) ''N6'' = None"
    using e by blast
  have "observers ?w1 ''N6'' = [testObserver 2] \<longrightarrow>
        observerMap (view (snd (removeObserver ''N6'' (notifyContext (testObserver 2)) ?w1))) ''N6'' = None"
    using T by (elim conjE)
  then have D: "observerMap (view (snd (removeObserver ''N6'' (notifyContext (testObserver 2)) ?w1)))
                  ''N6'' = None"
    using o by (rule mp)
  show ?thesis
    using A B i1 o D by (intro conjI) (elim conjE, assumption)+
qed

section \<open>Removing an Observer\<close>

lemma removeScan_skip:
  "k \<le> length zs \<Longrightarrow> \<forall>x\<in>set (take k zs). notifyContext x \<noteq> c \<Longrightarrow> notifyContext ob = c \<Longrightarrow>
   removeScan (ys @ ob # zs) c (Suc (length ys + k)) = ys @ zs"
proof (induction k)
  case 0
  then show ?case by (simp add: compareNotifyContext_def splice1_def)
next
  case (Suc k)
  have "zs ! k \<in> set (take (Suc k) zs)"
    using Suc.prems(1) by (simp add: take_Suc_conv_app_nth)
  then have ne: "notifyContext (zs ! k) \<noteq> c" using Suc.prems(2) by blast
  have nth: "(ys @ ob # zs) ! Suc (length ys + k) = zs ! k"
    by (simp add: nth_append)
  have "\<forall>x\<in>set (take k zs). notifyContext x \<noteq> c"
    using Suc.prems(1,2) by (simp add: take_Suc_conv_app_nth)
  then have ih: "removeScan (ys @ ob # zs) c (Suc (length ys + k)) = ys @ zs"
    using Suc by simp
  have "removeScan (ys @ ob # zs) c (Suc (Suc (length ys + k))) =
          removeScan (ys @ ob # zs) c (Suc (length ys + k))"
    using ne nth by (simp add: compareNotifyContext_def)
  then show ?case using ih by simp
qed

lemma removeScan_last:
  "notifyContext ob = c \<Longrightarrow> \<forall>x\<in>set zs. notifyContext x \<noteq> c \<Longrightarrow>
   removeScan (ys @ ob # zs) c (length (ys @ ob # zs)) = ys @ zs"
  using removeScan_skip[of "length zs" zs c ob ys] by simp

lemma removeScan_none:
  "\<forall>x\<in>set (take i xs). notifyContext x \<noteq> c \<Longrightarrow> i \<le> length xs \<Longrightarrow> removeScan xs c i = xs"
proof (induction i)
  case 0
  then show ?case by simp
next
  case (Suc i)
  have "xs ! i \<in> set (take (Suc i) xs)"
    using Suc.prems(2) by (simp add: take_Suc_conv_app_nth)
  then have "notifyContext (xs ! i) \<noteq> c" using Suc.prems(1) by blast
  moreover have "\<forall>x\<in>set (take i xs). notifyContext x \<noteq> c"
    using Suc.prems by (simp add: take_Suc_conv_app_nth)
  ultimately show ?case using Suc by (simp add: compareNotifyContext_def)
qed

text \<open>
  C6.  When the sequence of the name holds Observers whose context is the given one,
  \<open>removeObserver\<close> removes the last of them and nothing else: the Observers before
  it, earlier ones with the same context among them, and the Observers after it stay in
  place and in order (and the name is deleted when nothing is left).  When the sequence
  holds no such Observer, nothing is removed.
\<close>

theorem removeObserver_removes_last_match:
  assumes "observerMap (view w) n = Some a"
  shows "((\<exists>ob\<in>set (arrays w a). notifyContext ob = c) \<longrightarrow>
           (\<exists>ys ob zs. arrays w a = ys @ ob # zs \<and> notifyContext ob = c \<and>
              (\<forall>x\<in>set zs. notifyContext x \<noteq> c) \<and>
              removeObserver n c w =
                (Inr (), if ys @ zs = []
                   then w\<lparr>arrays := (arrays w)(a := []),
                          view := (view w)\<lparr>observerMap := (observerMap (view w))(n := None)\<rparr>\<rparr>
                   else w\<lparr>arrays := (arrays w)(a := ys @ zs)\<rparr>))) \<and>
         ((\<forall>ob\<in>set (arrays w a). notifyContext ob \<noteq> c) \<and> arrays w a \<noteq> [] \<longrightarrow>
            removeObserver n c w = (Inr (), w))"
proof (intro conjI impI)
  assume "\<exists>ob\<in>set (arrays w a). notifyContext ob = c"
  then obtain ys ob zs where d: "arrays w a = ys @ ob # zs" "notifyContext ob = c"
      "\<forall>x\<in>set zs. notifyContext x \<noteq> c"
    using split_list_last_prop[of "arrays w a" "\<lambda>ob. notifyContext ob = c"] by blast
  have s: "removeScan (arrays w a) c (length (arrays w a)) = ys @ zs"
    using removeScan_last[OF d(2,3), of ys] d(1) by simp
  have "removeObserver n c w =
          (Inr (), if ys @ zs = []
             then w\<lparr>arrays := (arrays w)(a := []),
                    view := (view w)\<lparr>observerMap := (observerMap (view w))(n := None)\<rparr>\<rparr>
             else w\<lparr>arrays := (arrays w)(a := ys @ zs)\<rparr>)"
    using assms s by (simp add: removeObserver_def Let_def getProperty_Own)
  then show "\<exists>ys ob zs. arrays w a = ys @ ob # zs \<and> notifyContext ob = c \<and>
              (\<forall>x\<in>set zs. notifyContext x \<noteq> c) \<and>
              removeObserver n c w =
                (Inr (), if ys @ zs = []
                   then w\<lparr>arrays := (arrays w)(a := []),
                          view := (view w)\<lparr>observerMap := (observerMap (view w))(n := None)\<rparr>\<rparr>
                   else w\<lparr>arrays := (arrays w)(a := ys @ zs)\<rparr>)"
    using d by blast
next
  assume h: "(\<forall>ob\<in>set (arrays w a). notifyContext ob \<noteq> c) \<and> arrays w a \<noteq> []"
  then have "removeScan (arrays w a) c (length (arrays w a)) = arrays w a"
    using removeScan_none[of "length (arrays w a)" "arrays w a" c] by simp
  then show "removeObserver n c w = (Inr (), w)"
    using assms h by (simp add: removeObserver_def Let_def getProperty_Own)
qed

theorem removeObserver_removes_last_match_witness:
  "observerMap (view threeObservers) ''N6'' = Some 0 \<and>
   arrays threeObservers 0 = [testObserver 1, testObserver 2, testObserver 1] \<and>
   (\<exists>ys ob zs. arrays threeObservers 0 = ys @ ob # zs \<and> notifyContext ob = 1 \<and>
      (\<forall>x\<in>set zs. notifyContext x \<noteq> 1) \<and>
      removeObserver ''N6'' 1 threeObservers =
        (Inr (), if ys @ zs = []
           then threeObservers\<lparr>arrays := (arrays threeObservers)(0 := []),
                  view := (view threeObservers)\<lparr>observerMap :=
                            (observerMap (view threeObservers))(''N6'' := None)\<rparr>\<rparr>
           else threeObservers\<lparr>arrays := (arrays threeObservers)(0 := ys @ zs)\<rparr>)) \<and>
   observers (snd (removeObserver ''N6'' 1 threeObservers)) ''N6'' = [testObserver 1, testObserver 2]"
proof -
  have h: "observerMap (view threeObservers) ''N6'' = Some 0"
    by (simp add: threeObservers_def scenario_defs)
  have a: "arrays threeObservers 0 = [testObserver 1, testObserver 2, testObserver 1]"
    by (simp add: threeObservers_def scenario_defs)
  have m: "\<exists>ob\<in>set (arrays threeObservers 0). notifyContext ob = 1"
    by (simp add: a testObserver_def)
  note T = removeObserver_removes_last_match[OF h, of 1, THEN conjunct1, THEN mp, OF m]
  have r: "observers (snd (removeObserver ''N6'' 1 threeObservers)) ''N6'' =
             [testObserver 1, testObserver 2]"
    by (simp add: threeObservers_def scenario_defs)
  show ?thesis
    using h a T r by (intro conjI)
qed

section \<open>Removing a Mediator\<close>

lemma removeLoop_removeEach:
  "i \<le> length ns \<Longrightarrow> removeLoop ns m i w = removeEach (rev (take i ns)) m w"
proof (induction i arbitrary: w)
  case 0
  then show ?case by simp
next
  case (Suc i)
  then have lt: "i < length ns" by simp
  have t: "rev (take (Suc i) ns) = ns ! i # rev (take i ns)"
    using lt by (simp add: take_Suc_conv_app_nth)
  show ?case
    using Suc lt by (simp add: t split: prod.splits sum.splits)
qed







lemma removeObserver_observers:
  assumes "separate w" and "noEmptySequence w" and "observers w n \<noteq> []"
  shows "\<exists>w'. removeObserver n c w = (Inr (), w') \<and>
           observers w' = (observers w)(n := removeScan (observers w n) c (length (observers w n))) \<and>
           separate w' \<and> noEmptySequence w' \<and>
           mediatorMap (view w') = mediatorMap (view w) \<and> calls w' = calls w \<and> app w' = app w"
proof -
  obtain a where a: "observerMap (view w) n = Some a"
    using assms(3) by (auto simp: observers_def split: option.splits)
  have g: "getProperty (observerMap (view w)) n = Own a"
    using a by (simp add: getProperty_Own_iff)
  let ?w' = "snd (removeObserver n c w)"
  have r: "removeObserver n c w = (Inr (), ?w')"
    using g by (simp add: removeObserver_def Let_def)
  have o: "observers ?w' n' = ((observers w)(n := removeScan (observers w n) c (length (observers w n)))) n'" for n'
  proof (cases "n' = n")
    case True
    then show ?thesis
      using a g by (simp add: removeObserver_def Let_def observers_def)
  next
    case False
    show ?thesis
    proof (cases "observerMap (view w) n'")
      case None
      then show ?thesis using a g False by (simp add: removeObserver_def Let_def observers_def)
    next
      case (Some b)
      have "b \<noteq> a" using assms(1) a Some False unfolding separate_def by blast
      then show ?thesis using a g False Some by (simp add: removeObserver_def Let_def observers_def)
    qed
  qed
  have f: "mediatorMap (view ?w') = mediatorMap (view w) \<and> calls ?w' = calls w \<and> app ?w' = app w"
    using g by (simp add: removeObserver_def Let_def)
  have o': "observers ?w' = (observers w)(n := removeScan (observers w n) c (length (observers w n)))"
    using o by (intro ext)
  show ?thesis
    using r o' f separate_removeObserver[OF assms(1), of n c]
      noEmptySequence_removeObserver[OF assms(1,2), of n c]
    by blast
qed

text \<open>
  The removals of \<open>removeMediator\<close> all succeed when no sequence of an interest is
  used up before the last removal that concerns it.
\<close>

lemma removeEach_survives:
  assumes "separate w" and "noEmptySequence w"
    and "\<forall>n\<in>set rs. \<forall>j<count_list rs n. removeTimes j m (observers w n) \<noteq> []"
  shows "\<exists>w'. removeEach rs m w = (Inr (), w') \<and>
           (\<forall>n. observers w' n = removeTimes (count_list rs n) m (observers w n)) \<and>
           separate w' \<and> noEmptySequence w' \<and>
           mediatorMap (view w') = mediatorMap (view w) \<and> calls w' = calls w \<and> app w' = app w"
  using assms
proof (induction rs arbitrary: w)
  case Nil
  then show ?case by simp
next
  case (Cons n0 rs)
  let ?xs = "observers w n0"
  let ?xs' = "removeScan ?xs m (length ?xs)"
  have "0 < count_list (n0 # rs) n0" by simp
  then have "removeTimes 0 m ?xs \<noteq> []" using Cons.prems(3) by (metis list.set_intros(1))
  then have ne: "?xs \<noteq> []" by simp
  obtain w1 where w1: "removeObserver n0 m w = (Inr (), w1)"
      "observers w1 = (observers w)(n0 := ?xs')"
      "separate w1" "noEmptySequence w1"
      "mediatorMap (view w1) = mediatorMap (view w)" "calls w1 = calls w" "app w1 = app w"
    using removeObserver_observers[OF Cons.prems(1,2) ne, of m] by blast
  have sub: "\<forall>n\<in>set rs. \<forall>j<count_list rs n. removeTimes j m (observers w1 n) \<noteq> []"
  proof (intro ballI allI impI)
    fix n j assume n: "n \<in> set rs" and j: "j < count_list rs n"
    show "removeTimes j m (observers w1 n) \<noteq> []"
    proof (cases "n = n0")
      case True
      have "Suc j < count_list (n0 # rs) n0" using j True by simp
      then have "removeTimes (Suc j) m ?xs \<noteq> []"
        using Cons.prems(3) by (metis list.set_intros(1))
      then show ?thesis using True by (simp add: w1(2))
    next
      case False
      have "j < count_list (n0 # rs) n" using j False by simp
      then have "removeTimes j m (observers w n) \<noteq> []"
        using Cons.prems(3) n by (metis list.set_intros(2))
      then show ?thesis using False by (simp add: w1(2))
    qed
  qed
  obtain w' where w': "removeEach rs m w1 = (Inr (), w')"
      "\<forall>n. observers w' n = removeTimes (count_list rs n) m (observers w1 n)"
      "separate w'" "noEmptySequence w'"
      "mediatorMap (view w') = mediatorMap (view w1)" "calls w' = calls w1" "app w' = app w1"
    using Cons.IH[OF w1(3,4) sub] by blast
  have obs: "observers w' n = removeTimes (count_list (n0 # rs) n) m (observers w n)" for n
    using w'(2) by (cases "n = n0") (simp_all add: w1(2))
  have e: "removeEach (n0 # rs) m w = (Inr (), w')"
    using w1(1) w'(1) by simp
  have fr: "mediatorMap (view w') = mediatorMap (view w) \<and> calls w' = calls w \<and> app w' = app w"
    using w'(5,6,7) w1(5,6,7) by simp
  show ?case
    using e obs w'(3,4) fr by blast
qed

lemma observers_frame:
  "observers (w\<lparr>calls := cs\<rparr>) = observers w"
  "observers (w\<lparr>app := ap'\<rparr>) = observers w"
  "observers (w\<lparr>view := (view w)\<lparr>mediatorMap := mm\<rparr>\<rparr>) = observers w"
  by (simp_all add: observers_def fun_eq_iff split: option.splits)

lemma separate_frame:
  "separate (w\<lparr>calls := cs\<rparr>) = separate w"
  "separate (w\<lparr>app := ap'\<rparr>) = separate w"
  "separate (w\<lparr>view := (view w)\<lparr>mediatorMap := mm\<rparr>\<rparr>) = separate w"
  by (simp_all add: separate_def)

lemma noEmptySequence_frame:
  "noEmptySequence (w\<lparr>calls := cs\<rparr>) = noEmptySequence w"
  "noEmptySequence (w\<lparr>app := ap'\<rparr>) = noEmptySequence w"
  "noEmptySequence (w\<lparr>view := (view w)\<lparr>mediatorMap := mm\<rparr>\<rparr>) = noEmptySequence w"
  by (simp_all add: noEmptySequence_def)

lemma removeMediator_survives:
  assumes "separate w" and "noEmptySequence w"
    and "mediatorMap (view w) mediatorName = Some m"
    and "\<forall>n\<in>set (listNotificationInterests mc m (w\<lparr>calls := calls w @ [ListNotificationInterests m]\<rparr>)).
           \<forall>j<count_list (listNotificationInterests mc m
                            (w\<lparr>calls := calls w @ [ListNotificationInterests m]\<rparr>)) n.
             removeTimes j m (observers w n) \<noteq> []"
  shows "\<exists>w2. removeMediator mc mediatorName w =
             (case invoke (OnRemove m) (onRemove mc m) w2 of
                (Inl e, w3) \<Rightarrow> (Inl e, w3)
              | (Inr u, w3) \<Rightarrow> (Inr (Some m), w3)) \<and>
           mediatorMap (view w2) = (mediatorMap (view w))(mediatorName := None) \<and>
           (\<forall>n. observers w2 n =
              removeTimes (count_list (listNotificationInterests mc m
                              (w\<lparr>calls := calls w @ [ListNotificationInterests m]\<rparr>)) n) m
                (observers w n)) \<and>
           separate w2 \<and> noEmptySequence w2 \<and>
           calls w2 = calls w @ [ListNotificationInterests m] \<and> app w2 = app w"
proof -
  let ?w1 = "w\<lparr>calls := calls w @ [ListNotificationInterests m]\<rparr>"
  let ?ns = "listNotificationInterests mc m ?w1"
  have sub: "\<forall>n\<in>set (rev ?ns). \<forall>j<count_list (rev ?ns) n. removeTimes j m (observers ?w1 n) \<noteq> []"
    using assms(4) by (simp add: observers_frame)
  have s1: "separate ?w1" using assms(1) by (simp add: separate_frame)
  have e1: "noEmptySequence ?w1" using assms(2) by (simp add: noEmptySequence_frame)
  obtain w' where w': "removeEach (rev ?ns) m ?w1 = (Inr (), w')"
      "\<forall>n. observers w' n = removeTimes (count_list (rev ?ns) n) m (observers ?w1 n)"
      "separate w'" "noEmptySequence w'"
      "mediatorMap (view w') = mediatorMap (view ?w1)" "calls w' = calls ?w1" "app w' = app ?w1"
    using removeEach_survives[OF s1 e1 sub] by blast
  have l: "removeLoop ?ns m (length ?ns) ?w1 = (Inr (), w')"
    using w'(1) by (simp add: removeLoop_removeEach)
  let ?w2 = "w'\<lparr>view := (view w')\<lparr>mediatorMap := (mediatorMap (view w'))(mediatorName := None)\<rparr>\<rparr>"
  have g: "getProperty (mediatorMap (view w)) mediatorName = Own m"
    using assms(3) by (simp add: getProperty_Own_iff)
  have r: "removeMediator mc mediatorName w =
             (case invoke (OnRemove m) (onRemove mc m) ?w2 of
                (Inl e, w3) \<Rightarrow> (Inl e, w3)
              | (Inr u, w3) \<Rightarrow> (Inr (Some m), w3))"
    using g l by (simp add: removeMediator_def Let_def)
  have m2: "mediatorMap (view ?w2) = (mediatorMap (view w))(mediatorName := None)"
    using w'(5) by simp
  have o2: "\<forall>n. observers ?w2 n = removeTimes (count_list ?ns n) m (observers w n)"
    using w'(2) by (simp add: observers_frame)
  have i2: "separate ?w2 \<and> noEmptySequence ?w2"
    using w'(3,4) by (simp add: separate_frame noEmptySequence_frame)
  have c2: "calls ?w2 = calls w @ [ListNotificationInterests m] \<and> app ?w2 = app w"
    using w'(6,7) by simp
  show ?thesis
    using r m2 o2 i2 c2 by blast
qed

section \<open>A Mediator that removes itself while it is notified\<close>

lemma removeScan_middle:
  assumes "notifyContext ob = c" and "\<forall>x\<in>set ys. notifyContext x \<noteq> c"
  shows "removeScan (xs @ ob # ys) c (length (xs @ ob # ys)) = xs @ ys"
  using removeScan_last[OF assms, of xs] by simp

lemma no_call_of_other_context:
  "\<forall>ob\<in>set zs. notifyContext ob \<noteq> notifyContext obM \<Longrightarrow>
   filter (\<lambda>ev. ev = NotifyObserver obM n) (map (\<lambda>ob. NotifyObserver ob n) zs) = []"
  by (induction zs) auto

lemma no_removal_among_calls:
  "filter (\<lambda>ev. ev = OnRemove m) (map (\<lambda>ob. NotifyObserver ob n) zs) = []"
  by (induction zs) auto

text \<open>
  C3.  Let the Mediator \<open>M\<close>, of any class, be registered, with the interest list
  \<open>[N6]\<close>, a removal hook that touches only the state of the application, and a handler
  that calls \<open>removeMediator\<close> for the name of \<open>M\<close>.  Let the Observer of \<open>M\<close> stand
  anywhere in the sequence of \<open>N6\<close>, after the Observers \<open>xs\<close> and before the
  Observers \<open>ys\<close> of other contexts, whose handlers touch only the state of the
  application.  Then one call of \<open>notifyObservers\<close> for \<open>N6\<close> returns normally and makes
  these calls, in this order and no others: the handlers of \<open>xs\<close>, the handler of
  \<open>M\<close>, the interest query and the removal hook of \<open>M\<close>, the handlers of \<open>ys\<close>.
  So no Observer of the sequence is skipped or notified twice although the sequence has
  shrunk under the delivery, the handler of \<open>M\<close> has run once and its removal hook has
  run once.  Afterwards \<open>M\<close> is no longer registered and the sequence of \<open>N6\<close> is
  \<open>xs\<close> followed by \<open>ys\<close>.
\<close>

theorem reentrant_removal_during_delivery:
  assumes "separate w" and "noEmptySequence w"
    and "mediatorMap (view w) (getMediatorName mc M) = Some M"
    and "\<forall>w'. listNotificationInterests mc M w' = [getName n]"
    and "appOnly (onRemove mc M)"
    and "ap (handleNotification mc M) M n = removeSelf mc M"
    and "obM = \<lparr>notifyMethod = handleNotification mc M, notifyContext = M\<rparr>"
    and "observers w (getName n) = xs @ obM # ys"
    and "\<forall>ob\<in>set (xs @ ys).
           notifyContext ob \<noteq> M \<and> appOnly (ap (notifyMethod ob) (notifyContext ob) n)"
  shows "fst (notifyObservers ap n w) = Inr () \<and>
         calls (snd (notifyObservers ap n w)) =
           calls w @ map (\<lambda>ob. NotifyObserver ob n) xs @
             [NotifyObserver obM n, ListNotificationInterests M, OnRemove M] @
             map (\<lambda>ob. NotifyObserver ob n) ys \<and>
         length (filter (\<lambda>ev. ev = NotifyObserver obM n) (calls (snd (notifyObservers ap n w)))) =
           length (filter (\<lambda>ev. ev = NotifyObserver obM n) (calls w)) + 1 \<and>
         length (filter (\<lambda>ev. ev = OnRemove M) (calls (snd (notifyObservers ap n w)))) =
           length (filter (\<lambda>ev. ev = OnRemove M) (calls w)) + 1 \<and>
         mediatorMap (view (snd (notifyObservers ap n w))) =
           (mediatorMap (view w))(getMediatorName mc M := None) \<and>
         observers (snd (notifyObservers ap n w)) = (observers w)(getName n := xs @ ys)"
proof -
  let ?N = "\<lambda>ob. NotifyObserver ob n"
  have cM: "notifyContext obM = M" and fM: "notifyMethod obM = handleNotification mc M"
    using assms(7) by simp_all
  have ent: "observerMap (view w) (getName n) \<noteq> None \<or> Object_prototype (getName n) = None"
    using assms(8) by (auto simp: observers_def split: option.splits)
  have d: "notifyObservers ap n w = deliver ap n (xs @ obM # ys) w"
    using notifyObservers_observers[OF ent, of ap] assms(8) by simp
  have hx: "\<forall>ob\<in>set xs. appOnly (ap (notifyMethod ob) (notifyContext ob) n)"
    and hy: "\<forall>ob\<in>set ys. appOnly (ap (notifyMethod ob) (notifyContext ob) n)"
    and cx: "\<forall>ob\<in>set xs. notifyContext ob \<noteq> M"
    and cy: "\<forall>ob\<in>set ys. notifyContext ob \<noteq> M"
    using assms(9) by auto
  obtain a1 where a1: "deliver ap n xs w = (Inr (), w\<lparr>calls := calls w @ map ?N xs, app := a1\<rparr>)"
    using deliver_appOnly[of xs ap n w] hx by blast
  let ?w1 = "w\<lparr>calls := calls w @ map ?N xs, app := a1\<rparr>"
  let ?w1' = "?w1\<lparr>calls := calls ?w1 @ [NotifyObserver obM n]\<rparr>"
  have s1: "separate ?w1'" using assms(1) by (simp add: separate_def)
  have e1: "noEmptySequence ?w1'" using assms(2) by (simp add: noEmptySequence_def)
  have m1: "mediatorMap (view ?w1') (getMediatorName mc M) = Some M" using assms(3) by simp
  have o1: "observers ?w1' = observers w"
    by (simp add: observers_def fun_eq_iff split: option.splits)
  have i1: "listNotificationInterests mc M (?w1'\<lparr>calls := calls ?w1' @ [ListNotificationInterests M]\<rparr>) =
              [getName n]"
    using assms(4) by blast
  have sub: "\<forall>nn\<in>set (listNotificationInterests mc M
                 (?w1'\<lparr>calls := calls ?w1' @ [ListNotificationInterests M]\<rparr>)).
           \<forall>j<count_list (listNotificationInterests mc M
                 (?w1'\<lparr>calls := calls ?w1' @ [ListNotificationInterests M]\<rparr>)) nn.
             removeTimes j M (observers ?w1' nn) \<noteq> []"
    unfolding i1 o1 using assms(8) by simp
  obtain w2 where w2: "removeMediator mc (getMediatorName mc M) ?w1' =
             (case invoke (OnRemove M) (onRemove mc M) w2 of
                (Inl e, w3) \<Rightarrow> (Inl e, w3)
              | (Inr u, w3) \<Rightarrow> (Inr (Some M), w3))"
      "mediatorMap (view w2) = (mediatorMap (view ?w1'))(getMediatorName mc M := None)"
      "\<forall>nn. observers w2 nn =
              removeTimes (count_list (listNotificationInterests mc M
                   (?w1'\<lparr>calls := calls ?w1' @ [ListNotificationInterests M]\<rparr>)) nn) M
                (observers ?w1' nn)"
      "calls w2 = calls ?w1' @ [ListNotificationInterests M]"
    using removeMediator_survives[OF s1 e1 m1 sub] by blast
  have sc: "removeScan (xs @ obM # ys) M (length (xs @ obM # ys)) = xs @ ys"
    using removeScan_middle[OF cM cy] by simp
  have rt: "removeTimes (Suc 0) M (xs @ obM # ys) = xs @ ys"
    using sc by (simp only: removeTimes.simps)
  have o2: "observers w2 nn = ((observers w)(getName n := xs @ ys)) nn" for nn
  proof (cases "nn = getName n")
    case True
    have "observers w2 nn = removeTimes (Suc 0) M (xs @ obM # ys)"
      using w2(3) unfolding i1 o1 by (simp add: True assms(8))
    then show ?thesis using rt True by simp
  next
    case False
    have "observers w2 nn = removeTimes 0 M (observers w nn)"
      using w2(3) False unfolding i1 o1 by simp
    then show ?thesis using False by simp
  qed
  obtain a2 where a2: "invoke (OnRemove M) (onRemove mc M) w2 =
      (Inr (), w2\<lparr>calls := calls w2 @ [OnRemove M], app := a2\<rparr>)"
    using appOnly_invoke[OF assms(5)] by blast
  let ?w3 = "w2\<lparr>calls := calls w2 @ [OnRemove M], app := a2\<rparr>"
  have rm: "removeMediator mc (getMediatorName mc M) ?w1' = (Inr (Some M), ?w3)"
    using w2(1) a2 by simp
  have h: "notifyObserver ap obM n ?w1 = (Inr (), ?w3)"
    using rm by (simp add: notifyObserver_def invoke_def cM fM assms(6) removeSelf_def
        facade_removeMediator_def)
  obtain a3 where a3: "deliver ap n ys ?w3 =
      (Inr (), ?w3\<lparr>calls := calls ?w3 @ map ?N ys, app := a3\<rparr>)"
    using deliver_appOnly[of ys ap n ?w3] hy by blast
  let ?w4 = "?w3\<lparr>calls := calls ?w3 @ map ?N ys, app := a3\<rparr>"
  have r: "notifyObservers ap n w = (Inr (), ?w4)"
    unfolding d by (simp add: deliver_append a1 h a3)
  have c4: "calls ?w4 = calls w @ map ?N xs @
             [NotifyObserver obM n, ListNotificationInterests M, OnRemove M] @ map ?N ys"
    by (simp add: w2(4))
  have nx: "filter (\<lambda>ev. ev = NotifyObserver obM n) (map ?N xs) = []"
    using no_call_of_other_context[of xs obM n] cx cM by simp
  have ny: "filter (\<lambda>ev. ev = NotifyObserver obM n) (map ?N ys) = []"
    using no_call_of_other_context[of ys obM n] cy cM by simp
  have k1: "length (filter (\<lambda>ev. ev = NotifyObserver obM n) (calls ?w4)) =
           length (filter (\<lambda>ev. ev = NotifyObserver obM n) (calls w)) + 1"
    unfolding c4 by (simp add: nx ny)
  have k2: "length (filter (\<lambda>ev. ev = OnRemove M) (calls ?w4)) =
           length (filter (\<lambda>ev. ev = OnRemove M) (calls w)) + 1"
    unfolding c4 by (simp add: no_removal_among_calls)
  have m4: "mediatorMap (view ?w4) = (mediatorMap (view w))(getMediatorName mc M := None)"
    using w2(2) by simp
  have o4: "observers ?w4 = (observers w)(getName n := xs @ ys)"
  proof
    fix nn
    have "observers ?w4 nn = observers w2 nn"
      by (simp add: observers_def split: option.splits)
    then show "observers ?w4 nn = ((observers w)(getName n := xs @ ys)) nn"
      using o2[of nn] by simp
  qed
  show ?thesis
    unfolding r fst_conv snd_conv
    using c4 k1 k2 m4 o4 by (intro conjI) simp_all
qed

text \<open>
  The Mediator of the View test, registered between two other Observers of \<open>N6\<close>:
  both of them are notified, the handler of the Mediator is called once, the removal
  hook has run once and the counter is 1.
\<close>

theorem reentrant_removal_during_delivery_witness:
  "fst (notifyObservers (ViewTest_apply ''N6'' testName) testNote amongOthers) = Inr () \<and>
   calls (snd (notifyObservers (ViewTest_apply ''N6'' testName) testNote amongOthers)) =
     calls amongOthers @
       [NotifyObserver (otherObserver 8) testNote, NotifyObserver (testObserver 1) testNote,
        ListNotificationInterests 1, OnRemove 1, NotifyObserver (otherObserver 9) testNote] \<and>
   length (filter (\<lambda>ev. ev = NotifyObserver (testObserver 1) testNote)
        (calls (snd (notifyObservers (ViewTest_apply ''N6'' testName) testNote amongOthers)))) = 1 \<and>
   length (filter (\<lambda>ev. ev = OnRemove 1)
        (calls (snd (notifyObservers (ViewTest_apply ''N6'' testName) testNote amongOthers)))) = 1 \<and>
   mediatorMap (view (snd (notifyObservers (ViewTest_apply ''N6'' testName) testNote amongOthers))) =
     Map.empty \<and>
   observers (snd (notifyObservers (ViewTest_apply ''N6'' testName) testNote amongOthers)) ''N6'' =
     [otherObserver 8, otherObserver 9] \<and>
   app (snd (notifyObservers (ViewTest_apply ''N6'' testName) testNote amongOthers)) = 1"
proof -
  let ?mc = "ViewTestMediator6 ''N6'' testName"
  let ?ap = "ViewTest_apply ''N6'' testName"
  let ?r = "snd (notifyObservers ?ap testNote amongOthers)"
  have p1: "separate amongOthers" by (simp add: amongOthers_eq separate_def)
  have p2: "noEmptySequence amongOthers" by (simp add: amongOthers_eq noEmptySequence_def)
  have p3: "mediatorMap (view amongOthers) (getMediatorName ?mc 1) = Some 1"
    by (simp add: amongOthers_eq ViewTestMediator6_def testName_def)
  have p4: "\<forall>w'. listNotificationInterests ?mc 1 w' = [getName testNote]"
    by (simp add: ViewTestMediator6_def testNote_def)
  have p5: "appOnly (onRemove ?mc 1)"
    unfolding appOnly_def
  proof
    fix w :: "int world"
    show "\<exists>a. onRemove ?mc 1 w = (Inr (), w\<lparr>app := a\<rparr>)"
      by (rule exI[of _ "app w + 1"]) (simp add: ViewTestMediator6_def)
  qed
  have p6: "?ap (handleNotification ?mc 1) 1 testNote = removeSelf ?mc 1"
    by (simp add: fun_eq_iff ViewTest_apply_def ViewTestMediator6_def)
  have p7: "testObserver 1 = \<lparr>notifyMethod = handleNotification ?mc 1, notifyContext = 1\<rparr>"
    by (simp add: testObserver_def ViewTestMediator6_def)
  have p8: "observers amongOthers (getName testNote) =
              [otherObserver 8] @ testObserver 1 # [otherObserver 9]"
    by (simp add: amongOthers_eq observers_def testNote_def)
  have q: "appOnly (?ap 7 c testNote)" for c
    unfolding appOnly_def
  proof
    fix w :: "int world"
    show "\<exists>a. ?ap 7 c testNote w = (Inr (), w\<lparr>app := a\<rparr>)"
      by (rule exI[of _ "app w"])
        (simp add: ViewTest_apply_def ViewTestMediator6_handleNotification_def)
  qed
  have p9: "\<forall>ob\<in>set ([otherObserver 8] @ [otherObserver 9]).
           notifyContext ob \<noteq> 1 \<and> appOnly (?ap (notifyMethod ob) (notifyContext ob) testNote)"
    using q by (simp add: otherObserver_def)
  note T = reentrant_removal_during_delivery
    [where w = amongOthers and mc = ?mc and M = 1 and n = testNote and ap = ?ap
       and obM = "testObserver 1" and xs = "[otherObserver 8]" and ys = "[otherObserver 9]",
     OF p1 p2 p3 p4 p5 p6 p7 p8 p9]
  have t1: "fst (notifyObservers ?ap testNote amongOthers) = Inr ()"
    using T by (rule conjunct1)
  have t2: "calls ?r = calls amongOthers @
       [NotifyObserver (otherObserver 8) testNote, NotifyObserver (testObserver 1) testNote,
        ListNotificationInterests 1, OnRemove 1, NotifyObserver (otherObserver 9) testNote]"
    using T by simp
  have t3: "length (filter (\<lambda>ev. ev = NotifyObserver (testObserver 1) testNote) (calls ?r)) = 1"
    unfolding t2 by (simp add: amongOthers_eq otherObserver_def testObserver_def)
  have t4: "length (filter (\<lambda>ev. ev = OnRemove 1) (calls ?r)) = 1"
    unfolding t2 by (simp add: amongOthers_eq)
  have t5: "mediatorMap (view ?r) = Map.empty"
    using T by (simp add: amongOthers_eq ViewTestMediator6_def testName_def)
  have "observers ?r = (observers amongOthers)(getName testNote := [otherObserver 8] @ [otherObserver 9])"
    using T by (elim conjE)
  then have t6: "observers ?r ''N6'' = [otherObserver 8, otherObserver 9]"
    by (simp add: testNote_def)
  have t7: "app ?r = 1"
    by (simp add: amongOthers_eq) (simp add: scenario_defs)
  show ?thesis
    using t1 t2 t3 t4 t5 t6 t7 by (intro conjI)
qed

section \<open>What \<open>removeMediator\<close> removes\<close>





section \<open>The multiton factories: construction and lookup\<close>

















section \<open>Registering a Proxy under a name in use\<close>

lemma oneProxy_eq:
  "oneProxy = \<lparr>view = View_fields ''key'',
      model = \<lparr>modelMultitonKey = ''key'', proxyMap = [''P'' \<mapsto> 1], proxyMapPrototype = None\<rparr>,
      arrays = (\<lambda>a. []), nextAddr = 0,
      calls = [InitializeNotifier 1 ''key'', OnRegister 1], app = 0\<rparr>"
  by (simp add: oneProxy_def registerProxy_def setProxy_def Proxy_def noop_def invoke_def
        newCore_def Model_fields_def)

text \<open>
  The assignment of \<open>registerProxy\<close> when \<open>retrieveProxy\<close> finds a Proxy under the
  name: the own property is overwritten, or, for the name \<open>__proto__\<close>, the prototype
  is replaced.
\<close>

lemma setProxy_registered:
  assumes "retrieveProxy P w = Object p1" and "model w1 = model w"
  shows "setProxy pc P p2 w1 =
           (Inr (), w1\<lparr>model :=
              (if proxyMap (model w) P \<noteq> None
               then (model w)\<lparr>proxyMap := (proxyMap (model w))(P \<mapsto> p2)\<rparr>
               else (model w)\<lparr>proxyMapPrototype := Some p2\<rparr>)\<rparr>)"
proof (cases "proxyMap (model w) P")
  case (Some q)
  then show ?thesis using assms(2) by (simp add: setProxy_def)
next
  case None
  then have "P = ''__proto__''"
    using assms(1)
    by (auto simp: retrieveProxy_def split: option.splits if_splits)
  then show ?thesis using None assms(2) by (simp add: setProxy_def)
qed

lemma retrieveProxy_registered:
  assumes "retrieveProxy P w = Object p1"
    and "model w2 =
           (if proxyMap (model w) P \<noteq> None
            then (model w)\<lparr>proxyMap := (proxyMap (model w))(P \<mapsto> p2)\<rparr>
            else (model w)\<lparr>proxyMapPrototype := Some p2\<rparr>)"
  shows "retrieveProxy P w2 = Object p2"
proof (cases "proxyMap (model w) P")
  case (Some q)
  then show ?thesis using assms(2) by (simp add: retrieveProxy_def)
next
  case None
  then have "P = ''__proto__''"
    using assms(1)
    by (auto simp: retrieveProxy_def split: option.splits if_splits)
  then show ?thesis using None assms(2) by (simp add: retrieveProxy_def)
qed

text \<open>
  C8.  Let \<open>retrieveProxy(P)\<close> return the Proxy \<open>p1\<close>, and let \<open>registerProxy\<close> be
  called with a second Proxy \<open>p2\<close> of that name whose \<open>initializeNotifier\<close>
  returns normally, in the state \<open>w1\<close>, and leaves the Model alone.  Then what
  \<open>registerProxy\<close> does and returns is what the hook \<open>onRegister\<close> of \<open>p2\<close> does
  and returns when it is applied to the state \<open>w2\<close>: the state \<open>w1\<close> with \<open>p2\<close>
  stored in place of \<open>p1\<close> and the call of the hook logged.  In \<open>w2\<close>, and in the
  state the hook leaves when it returns normally without touching the Model,
  \<open>retrieveProxy(P)\<close> returns \<open>p2\<close>.  The result does not depend on the removal
  hooks of the Proxies, and with hooks that touch only the state of the application
  the calls logged are \<open>initializeNotifier\<close> and \<open>onRegister\<close> of \<open>p2\<close>:
  \<open>onRemove\<close> of \<open>p1\<close> is not called.
\<close>

theorem registerProxy_overwrites:
  assumes "retrieveProxy P w = Object p1" and "getProxyName pc p2 = P"
    and "invoke (InitializeNotifier p2 (modelMultitonKey (model w)))
           (proxyInitializeNotifier pc p2 (modelMultitonKey (model w))) w = (Inr (), w1)"
    and "model w1 = model w"
    and "w2 = w1\<lparr>model :=
                  (if proxyMap (model w) P \<noteq> None
                   then (model w)\<lparr>proxyMap := (proxyMap (model w))(P \<mapsto> p2)\<rparr>
                   else (model w)\<lparr>proxyMapPrototype := Some p2\<rparr>),
                calls := calls w1 @ [OnRegister p2]\<rparr>"
  shows "registerProxy pc p2 w = proxyOnRegister pc p2 w2 \<and>
         retrieveProxy P w2 = Object p2 \<and>
         (\<forall>w3. proxyOnRegister pc p2 w2 = (Inr (), w3) \<and> model w3 = model w2 \<longrightarrow>
            registerProxy pc p2 w = (Inr (), w3) \<and> retrieveProxy P w3 = Object p2) \<and>
         (\<forall>h. registerProxy (pc\<lparr>proxyOnRemove := h\<rparr>) p2 w = registerProxy pc p2 w) \<and>
         (appOnly (proxyOnRegister pc p2) \<and>
          calls w1 = calls w @ [InitializeNotifier p2 (modelMultitonKey (model w))] \<longrightarrow>
            fst (registerProxy pc p2 w) = Inr () \<and>
            retrieveProxy P (snd (registerProxy pc p2 w)) = Object p2 \<and>
            calls (snd (registerProxy pc p2 w)) =
              calls w @ [InitializeNotifier p2 (modelMultitonKey (model w)), OnRegister p2] \<and>
            length (filter (\<lambda>ev. ev = OnRemove p1) (calls (snd (registerProxy pc p2 w)))) =
              length (filter (\<lambda>ev. ev = OnRemove p1) (calls w)))"
proof -
  let ?M = "if proxyMap (model w) P \<noteq> None
            then (model w)\<lparr>proxyMap := (proxyMap (model w))(P \<mapsto> p2)\<rparr>
            else (model w)\<lparr>proxyMapPrototype := Some p2\<rparr>"
  have sp: "setProxy pc P p2 w1 = (Inr (), w1\<lparr>model := ?M\<rparr>)"
    by (rule setProxy_registered[OF assms(1,4)])
  have w2: "w2 = (w1\<lparr>model := ?M\<rparr>)\<lparr>calls := calls (w1\<lparr>model := ?M\<rparr>) @ [OnRegister p2]\<rparr>"
    unfolding assms(5) by simp
  have r: "registerProxy pc p2 w = proxyOnRegister pc p2 w2"
    unfolding w2 using assms(2,3) sp by (simp add: registerProxy_def invoke_def)
  have m2: "model w2 = ?M" unfolding assms(5) by simp
  have g: "retrieveProxy P w2 = Object p2"
    by (rule retrieveProxy_registered[OF assms(1) m2])
  have n: "\<forall>w3. proxyOnRegister pc p2 w2 = (Inr (), w3) \<and> model w3 = model w2 \<longrightarrow>
            registerProxy pc p2 w = (Inr (), w3) \<and> retrieveProxy P w3 = Object p2"
  proof (intro allI impI)
    fix w3 assume h: "proxyOnRegister pc p2 w2 = (Inr (), w3) \<and> model w3 = model w2"
    have "model w3 = ?M" using h m2 by simp
    then have "retrieveProxy P w3 = Object p2"
      by (rule retrieveProxy_registered[OF assms(1)])
    then show "registerProxy pc p2 w = (Inr (), w3) \<and> retrieveProxy P w3 = Object p2"
      using r h by simp
  qed
  have sp': "setProxy (pc\<lparr>proxyOnRemove := h\<rparr>) nm p w' = setProxy pc nm p w'"
    for h nm p and w' :: "'a world"
    by (simp add: setProxy_def Let_def split: option.splits)
  have i: "\<forall>h. registerProxy (pc\<lparr>proxyOnRemove := h\<rparr>) p2 w = registerProxy pc p2 w"
    by (simp add: registerProxy_def sp' split: prod.splits sum.splits)
  have a: "fst (registerProxy pc p2 w) = Inr () \<and>
            retrieveProxy P (snd (registerProxy pc p2 w)) = Object p2 \<and>
            calls (snd (registerProxy pc p2 w)) =
              calls w @ [InitializeNotifier p2 (modelMultitonKey (model w)), OnRegister p2] \<and>
            length (filter (\<lambda>ev. ev = OnRemove p1) (calls (snd (registerProxy pc p2 w)))) =
              length (filter (\<lambda>ev. ev = OnRemove p1) (calls w))"
    if h: "appOnly (proxyOnRegister pc p2) \<and>
          calls w1 = calls w @ [InitializeNotifier p2 (modelMultitonKey (model w))]"
  proof -
    obtain a where a: "proxyOnRegister pc p2 w2 = (Inr (), w2\<lparr>app := a\<rparr>)"
      using h unfolding appOnly_def by blast
    have "model (w2\<lparr>app := a\<rparr>) = ?M" using m2 by simp
    then have g': "retrieveProxy P (w2\<lparr>app := a\<rparr>) = Object p2"
      by (rule retrieveProxy_registered[OF assms(1)])
    have c: "calls w2 = calls w @ [InitializeNotifier p2 (modelMultitonKey (model w)), OnRegister p2]"
      unfolding assms(5) using h by simp
    show ?thesis
      unfolding r a fst_conv snd_conv using g' c by simp
  qed
  have a': "appOnly (proxyOnRegister pc p2) \<and>
          calls w1 = calls w @ [InitializeNotifier p2 (modelMultitonKey (model w))] \<longrightarrow>
            fst (registerProxy pc p2 w) = Inr () \<and>
            retrieveProxy P (snd (registerProxy pc p2 w)) = Object p2 \<and>
            calls (snd (registerProxy pc p2 w)) =
              calls w @ [InitializeNotifier p2 (modelMultitonKey (model w)), OnRegister p2] \<and>
            length (filter (\<lambda>ev. ev = OnRemove p1) (calls (snd (registerProxy pc p2 w)))) =
              length (filter (\<lambda>ev. ev = OnRemove p1) (calls w))"
    by (rule impI, rule a, assumption)
  show ?thesis
    using r g n i a' by (intro conjI)
qed

text \<open>
  Two Proxies of the base class, both named \<open>P\<close>: the second replaces the first, and
  the calls logged are the two hooks of the first registration and the two hooks of the
  second.
\<close>

theorem registerProxy_overwrites_witness:
  "retrieveProxy ''P'' oneProxy = Object 1 \<and>
   fst (registerProxy (Proxy (\<lambda>p. ''P'') (\<lambda>q nm. None)) 2 oneProxy) = Inr () \<and>
   retrieveProxy ''P'' (snd (registerProxy (Proxy (\<lambda>p. ''P'') (\<lambda>q nm. None)) 2 oneProxy)) =
     Object 2 \<and>
   calls (snd (registerProxy (Proxy (\<lambda>p. ''P'') (\<lambda>q nm. None)) 2 oneProxy)) =
     [InitializeNotifier 1 ''key'', OnRegister 1, InitializeNotifier 2 ''key'', OnRegister 2] \<and>
   length (filter (\<lambda>ev. ev = OnRemove 1)
     (calls (snd (registerProxy (Proxy (\<lambda>p. ''P'') (\<lambda>q nm. None)) 2 oneProxy)))) = 0"
proof -
  let ?pc = "Proxy (\<lambda>p. ''P'') (\<lambda>q nm. None) :: int proxies"
  let ?w1 = "oneProxy\<lparr>calls := calls oneProxy @ [InitializeNotifier 2 ''key'']\<rparr>"
  let ?w2 = "?w1\<lparr>model :=
                  (if proxyMap (model oneProxy) ''P'' \<noteq> None
                   then (model oneProxy)\<lparr>proxyMap := (proxyMap (model oneProxy))(''P'' \<mapsto> 2)\<rparr>
                   else (model oneProxy)\<lparr>proxyMapPrototype := Some 2\<rparr>),
                calls := calls ?w1 @ [OnRegister 2]\<rparr>"
  have h1: "retrieveProxy ''P'' oneProxy = Object 1"
    by (simp add: oneProxy_eq retrieveProxy_def)
  have h2: "getProxyName ?pc 2 = ''P''" by (simp add: Proxy_def)
  have k: "modelMultitonKey (model oneProxy) = ''key''" by (simp add: oneProxy_eq)
  have h3: "invoke (InitializeNotifier 2 (modelMultitonKey (model oneProxy)))
           (proxyInitializeNotifier ?pc 2 (modelMultitonKey (model oneProxy))) oneProxy =
           (Inr (), ?w1)"
    by (simp add: k invoke_def Proxy_def noop_def)
  have h4: "model ?w1 = model oneProxy" by simp
  note T = registerProxy_overwrites
    [where w = oneProxy and P = "''P''" and ?p1.0 = 1 and pc = ?pc and ?p2.0 = 2
       and ?w1.0 = ?w1 and ?w2.0 = ?w2, OF h1 h2 h3 h4 refl]
  have h5: "appOnly (proxyOnRegister ?pc 2) \<and>
          calls ?w1 = calls oneProxy @ [InitializeNotifier 2 (modelMultitonKey (model oneProxy))]"
    by (simp add: Proxy_def appOnly_noop k)
  have t: "fst (registerProxy ?pc 2 oneProxy) = Inr () \<and>
            retrieveProxy ''P'' (snd (registerProxy ?pc 2 oneProxy)) = Object 2 \<and>
            calls (snd (registerProxy ?pc 2 oneProxy)) =
              calls oneProxy @ [InitializeNotifier 2 (modelMultitonKey (model oneProxy)), OnRegister 2] \<and>
            length (filter (\<lambda>ev. ev = OnRemove 1) (calls (snd (registerProxy ?pc 2 oneProxy)))) =
              length (filter (\<lambda>ev. ev = OnRemove 1) (calls oneProxy))"
    using T h5 by blast
  have c: "calls oneProxy = [InitializeNotifier 1 ''key'', OnRegister 1]"
    by (simp add: oneProxy_eq)
  have t1: "fst (registerProxy ?pc 2 oneProxy) = Inr ()"
    and t2: "retrieveProxy ''P'' (snd (registerProxy ?pc 2 oneProxy)) = Object 2"
    using t by simp_all
  have t3: "calls (snd (registerProxy ?pc 2 oneProxy)) =
     [InitializeNotifier 1 ''key'', OnRegister 1, InitializeNotifier 2 ''key'', OnRegister 2]"
    using t by (simp add: c k)
  have t4: "length (filter (\<lambda>ev. ev = OnRemove 1) (calls (snd (registerProxy ?pc 2 oneProxy)))) = 0"
    using t by (simp add: c)
  show ?thesis
    using h1 t1 t2 t3 t4 by (intro conjI)
qed

section \<open>When the interests of a Mediator are queried\<close>

lemma appOnly_ViewTestMediator6:
  "appOnly (initializeNotifier (ViewTestMediator6 NOTE6 nm) m k)"
  "appOnly (onRegister (ViewTestMediator6 NOTE6 nm) m)"
  "appOnly (onRemove (ViewTestMediator6 NOTE6 nm) m)"
proof -
  have "\<exists>a. (Inr (), w\<lparr>app := app w + 1\<rparr>) = (Inr (), w\<lparr>app := a\<rparr>)" for w :: "int world"
    by (rule exI[of _ "app w + 1"]) simp
  then show "appOnly (onRemove (ViewTestMediator6 NOTE6 nm) m)"
    by (simp add: ViewTestMediator6_def appOnly_def)
qed (simp_all add: ViewTestMediator6_def appOnly_noop)

lemma calls_registerObserver: "calls (snd (registerObserver n ob w)) = calls w"
  by (simp add: registerObserver_def split: property.splits)

lemma calls_registerEach: "calls (snd (registerEach ns ob w)) = calls w"
proof (induction ns arbitrary: w)
  case Nil
  then show ?case by simp
next
  case (Cons n ns)
  obtain r w1 where e: "registerObserver n ob w = (r, w1)"
    by (cases "registerObserver n ob w")
  have c: "calls w1 = calls w" using calls_registerObserver[of n ob w] e by simp
  show ?case
  proof (cases r)
    case (Inl x)
    then show ?thesis using e c by simp
  next
    case (Inr u)
    then show ?thesis using e c Cons.IH[of w1] by simp
  qed
qed

lemma calls_removeObserver: "calls (snd (removeObserver n c w)) = calls w"
  by (simp add: removeObserver_def Let_def split: property.splits member.splits)

lemma calls_removeLoop: "calls (snd (removeLoop ns m i w)) = calls w"
proof (induction i arbitrary: w)
  case 0
  then show ?case by simp
next
  case (Suc i)
  obtain r w1 where e: "removeObserver (ns ! i) m w = (r, w1)"
    by (cases "removeObserver (ns ! i) m w")
  have c: "calls w1 = calls w" using calls_removeObserver[of "ns ! i" m w] e by simp
  show ?case
  proof (cases r)
    case (Inl x)
    then show ?thesis using e c by simp
  next
    case (Inr u)
    then show ?thesis using e c Suc.IH[of w1] by simp
  qed
qed

text \<open>
  The calls of a registration: the interest query comes after \<open>initializeNotifier\<close>,
  and \<open>onRegister\<close> follows unless \<open>registerObserver\<close> has thrown.
\<close>

lemma registerMediator_appOnly_calls:
  assumes "appOnly (initializeNotifier mc m (multitonKey (view w)))"
    and "appOnly (onRegister mc m)"
    and "getProperty (mediatorMap (view w)) (getMediatorName mc m) = Undefined"
  shows "calls (snd (registerMediator mc m w)) =
           calls w @ [InitializeNotifier m (multitonKey (view w)), ListNotificationInterests m] \<or>
         calls (snd (registerMediator mc m w)) =
           calls w @ [InitializeNotifier m (multitonKey (view w)), ListNotificationInterests m,
                      OnRegister m]"
proof -
  let ?k = "multitonKey (view w)"
  obtain a1 where 1: "invoke (InitializeNotifier m ?k) (initializeNotifier mc m ?k) w =
      (Inr (), w\<lparr>calls := calls w @ [InitializeNotifier m ?k], app := a1\<rparr>)"
    using appOnly_invoke[OF assms(1)] by blast
  let ?w1 = "w\<lparr>calls := calls w @ [InitializeNotifier m ?k], app := a1\<rparr>"
  let ?w2 = "?w1\<lparr>view := (view ?w1)\<lparr>mediatorMap :=
                (mediatorMap (view ?w1))(getMediatorName mc m \<mapsto> m)\<rparr>\<rparr>"
  let ?w3 = "?w2\<lparr>calls := calls ?w2 @ [ListNotificationInterests m]\<rparr>"
  let ?ns = "listNotificationInterests mc m ?w3"
  let ?ob = "\<lparr>notifyMethod = handleNotification mc m, notifyContext = m\<rparr>"
  let ?l = "if length ?ns > 0 then registerLoop ?ns ?ob (length ?ns) 0 ?w3 else (Inr (), ?w3)"
  obtain r w4 where e: "?l = (r, w4)" by (cases ?l)
  have "calls (snd ?l) = calls ?w3"
    by (simp add: registerLoop_all calls_registerEach)
  then have c4: "calls w4 = calls w @ [InitializeNotifier m ?k, ListNotificationInterests m]"
    using e by simp
  have rm: "registerMediator mc m w =
      (case ?l of (Inl e, w4) \<Rightarrow> (Inl e, w4)
                | (Inr u', w4) \<Rightarrow> invoke (OnRegister m) (onRegister mc m) w4)"
    using assms(3) 1 by (simp add: registerMediator_def Let_def)
  show ?thesis
  proof (cases r)
    case (Inl x)
    have "registerMediator mc m w = (Inl x, w4)"
      unfolding rm e using Inl by simp
    then show ?thesis using c4 by simp
  next
    case (Inr u)
    obtain a2 where 2: "invoke (OnRegister m) (onRegister mc m) w4 =
        (Inr (), w4\<lparr>calls := calls w4 @ [OnRegister m], app := a2\<rparr>)"
      using appOnly_invoke[OF assms(2)] by blast
    have "registerMediator mc m w = (Inr (), w4\<lparr>calls := calls w4 @ [OnRegister m], app := a2\<rparr>)"
      unfolding rm e using Inr 2 by simp
    then show ?thesis using c4 by simp
  qed
qed

lemma removeMediator_appOnly_calls:
  assumes "appOnly (onRemove mc m)" and "mediatorMap (view w) nm = Some m"
  shows "calls (snd (removeMediator mc nm w)) = calls w @ [ListNotificationInterests m] \<or>
         calls (snd (removeMediator mc nm w)) = calls w @ [ListNotificationInterests m, OnRemove m]"
proof -
  let ?w1 = "w\<lparr>calls := calls w @ [ListNotificationInterests m]\<rparr>"
  let ?ns = "listNotificationInterests mc m ?w1"
  have g: "getProperty (mediatorMap (view w)) nm = Own m"
    using assms(2) by (simp add: getProperty_Own_iff)
  obtain r w2 where e: "removeLoop ?ns m (length ?ns) ?w1 = (r, w2)"
    by (cases "removeLoop ?ns m (length ?ns) ?w1")
  have c2: "calls w2 = calls w @ [ListNotificationInterests m]"
    using calls_removeLoop[of ?ns m "length ?ns" ?w1] e by simp
  show ?thesis
  proof (cases r)
    case (Inl x)
    then show ?thesis using g e c2 by (simp add: removeMediator_def Let_def)
  next
    case (Inr u)
    let ?w3 = "w2\<lparr>view := (view w2)\<lparr>mediatorMap := (mediatorMap (view w2))(nm := None)\<rparr>\<rparr>"
    obtain a where a: "invoke (OnRemove m) (onRemove mc m) ?w3 =
        (Inr (), ?w3\<lparr>calls := calls ?w3 @ [OnRemove m], app := a\<rparr>)"
      using appOnly_invoke[OF assms(1)] by blast
    show ?thesis using g e Inr a c2 by (simp add: removeMediator_def Let_def)
  qed
qed

lemma calls_notifyObservers_appOnly:
  assumes "\<forall>f c. appOnly (ap f c nt)"
  shows "filter (\<lambda>ev. ev = ListNotificationInterests m') (calls (snd (notifyObservers ap nt w))) =
         filter (\<lambda>ev. ev = ListNotificationInterests m') (calls w)"
proof (cases "getProperty (observerMap (view w)) (getName nt)")
  case Undefined
  then show ?thesis by (simp add: notifyObservers_deliver)
next
  case (Inherited f)
  then show ?thesis by (simp add: notifyObservers_deliver)
next
  case (Own a)
  have "calls (snd (deliver ap nt (arrays w a) w)) =
          calls w @ map (\<lambda>ob. NotifyObserver ob nt) (arrays w a)"
    using deliver_appOnly_calls[of ap nt "arrays w a" w] assms by simp
  then show ?thesis
    using Own by (simp add: notifyObservers_deliver filter_empty_conv)
qed

text \<open>
  C9.  With hooks and handlers that return normally and touch only the state
  of the application, the View asks a Mediator for its notification interests exactly
  once when \<open>registerMediator\<close> registers it and exactly once more when
  \<open>removeMediator\<close> removes it; \<open>registerMediator\<close> under a name in use (or
  inherited from \<open>Object.prototype\<close>), \<open>removeMediator\<close> of an unknown name,
  \<open>registerObserver\<close>, \<open>removeObserver\<close> and \<open>notifyObservers\<close> do not ask
  (\<open>retrieveMediator\<close> and \<open>hasMediator\<close> only read \<open>mediatorMap\<close>).
\<close>

theorem interests_queried_at_registration_and_removal:
  assumes "\<forall>m k. appOnly (initializeNotifier mc m k)" and "\<forall>m. appOnly (onRegister mc m)"
    and "\<forall>m. appOnly (onRemove mc m)" and "\<forall>f c. appOnly (ap f c nt)"
  shows "(getProperty (mediatorMap (view w)) (getMediatorName mc m) = Undefined \<longrightarrow>
            interestQueries m' (snd (registerMediator mc m w)) =
              interestQueries m' w + (if m' = m then 1 else 0)) \<and>
         (getProperty (mediatorMap (view w)) (getMediatorName mc m) \<noteq> Undefined \<longrightarrow>
            interestQueries m' (snd (registerMediator mc m w)) = interestQueries m' w) \<and>
         (mediatorMap (view w) nm = Some m \<longrightarrow>
            interestQueries m' (snd (removeMediator mc nm w)) =
              interestQueries m' w + (if m' = m then 1 else 0)) \<and>
         (mediatorMap (view w) nm = None \<longrightarrow>
            interestQueries m' (snd (removeMediator mc nm w)) = interestQueries m' w) \<and>
         interestQueries m' (snd (registerObserver n ob w)) = interestQueries m' w \<and>
         interestQueries m' (snd (removeObserver n c w)) = interestQueries m' w \<and>
         interestQueries m' (snd (notifyObservers ap nt w)) = interestQueries m' w"
proof (intro conjI impI)
  assume h: "getProperty (mediatorMap (view w)) (getMediatorName mc m) = Undefined"
  have "appOnly (initializeNotifier mc m (multitonKey (view w)))" "appOnly (onRegister mc m)"
    using assms by blast+
  from registerMediator_appOnly_calls[OF this h]
  show "interestQueries m' (snd (registerMediator mc m w)) =
          interestQueries m' w + (if m' = m then 1 else 0)"
    by (auto simp: interestQueries_def)
next
  assume "getProperty (mediatorMap (view w)) (getMediatorName mc m) \<noteq> Undefined"
  then show "interestQueries m' (snd (registerMediator mc m w)) = interestQueries m' w"
    by (simp add: registerMediator_def)
next
  assume h: "mediatorMap (view w) nm = Some m"
  have "appOnly (onRemove mc m)" using assms by blast
  from removeMediator_appOnly_calls[OF this h]
  show "interestQueries m' (snd (removeMediator mc nm w)) =
          interestQueries m' w + (if m' = m then 1 else 0)"
    by (auto simp: interestQueries_def)
next
  assume "mediatorMap (view w) nm = None"
  then show "interestQueries m' (snd (removeMediator mc nm w)) = interestQueries m' w"
    by (simp add: removeMediator_def getProperty_def split: option.splits)
next
  show "interestQueries m' (snd (registerObserver n ob w)) = interestQueries m' w"
    by (simp add: interestQueries_def calls_registerObserver)
next
  show "interestQueries m' (snd (removeObserver n c w)) = interestQueries m' w"
    by (simp add: interestQueries_def calls_removeObserver)
next
  show "interestQueries m' (snd (notifyObservers ap nt w)) = interestQueries m' w"
    using calls_notifyObservers_appOnly[of ap nt m' w] assms(4)
    by (simp add: interestQueries_def)
qed

text \<open>The Mediator of the View test, registered and removed again.\<close>

theorem interests_queried_at_registration_and_removal_witness:
  "(\<forall>m k. appOnly (initializeNotifier (ViewTestMediator6 ''N6'' testName) m k)) \<and>
   (\<forall>m. appOnly (onRegister (ViewTestMediator6 ''N6'' testName) m)) \<and>
   (\<forall>m. appOnly (onRemove (ViewTestMediator6 ''N6'' testName) m)) \<and>
   (\<forall>f c. appOnly ((\<lambda>f c n. noop :: (int, unit) action) f c testNote)) \<and>
   getProperty (mediatorMap (view (newCore ''key'' (0::int))))
     (getMediatorName (ViewTestMediator6 ''N6'' testName) 1) = Undefined \<and>
   interestQueries 1 (snd (registerMediator (ViewTestMediator6 ''N6'' testName) 1
                             (newCore ''key'' 0))) =
     interestQueries 1 (newCore ''key'' (0::int)) + 1 \<and>
   mediatorMap (view oneMediator) ''ViewTestMediator6/1'' = Some 1 \<and>
   interestQueries 1 (snd (removeMediator (ViewTestMediator6 ''N6'' testName)
                             ''ViewTestMediator6/1'' oneMediator)) =
     interestQueries 1 oneMediator + 1 \<and>
   interestQueries 1 (snd (notifyObservers (\<lambda>f c n. noop) testNote oneMediator)) =
     interestQueries 1 oneMediator"
proof -
  let ?mc = "ViewTestMediator6 ''N6'' testName"
  let ?ap = "\<lambda>f c n. noop :: (int, unit) action"
  have h1: "\<forall>m k. appOnly (initializeNotifier ?mc m k)"
    and h2: "\<forall>m. appOnly (onRegister ?mc m)"
    and h3: "\<forall>m. appOnly (onRemove ?mc m)"
    by (simp_all add: appOnly_ViewTestMediator6)
  have h4: "\<forall>f c. appOnly (?ap f c testNote)"
    by (simp add: appOnly_noop)
  have g1: "getProperty (mediatorMap (view (newCore ''key'' (0::int)))) (getMediatorName ?mc 1) =
              Undefined"
    by (simp add: newCore_def View_fields_def getProperty_def ViewTestMediator6_def test_names)
  have g2: "mediatorMap (view oneMediator) ''ViewTestMediator6/1'' = Some 1"
    by (simp add: oneMediator_eq)
  note A = interests_queried_at_registration_and_removal
             [OF h1 h2 h3 h4, where w = "newCore ''key'' 0" and m = 1 and m' = 1]
  note B = interests_queried_at_registration_and_removal
             [OF h1 h2 h3 h4, where w = oneMediator and m = 1 and m' = 1
                and nm = "''ViewTestMediator6/1''"]
  have t1: "interestQueries 1 (snd (registerMediator ?mc 1 (newCore ''key'' 0))) =
              interestQueries 1 (newCore ''key'' (0::int)) + 1"
    using A g1 by simp
  have t2: "interestQueries 1 (snd (removeMediator ?mc ''ViewTestMediator6/1'' oneMediator)) =
              interestQueries 1 oneMediator + 1"
    using B g2 by simp
  have t3: "interestQueries 1 (snd (notifyObservers ?ap testNote oneMediator)) =
              interestQueries 1 oneMediator"
    using B by blast
  show ?thesis
    using h1 h2 h3 h4 g1 g2 t1 t2 t3 by (intro conjI)
qed

text \<open>
  The interests are not queried at registration only: in the View test, the Mediator has
  been asked once when it is registered, and \<open>removeMediator\<close> asks it a second
  time.
\<close>

theorem removeMediator_queries_interests_again:
  "mediatorMap (view oneMediator) ''ViewTestMediator6/1'' = Some 1 \<and>
   interestQueries 1 oneMediator = 1 \<and>
   fst (removeMediator (ViewTestMediator6 ''N6'' testName) ''ViewTestMediator6/1'' oneMediator) =
     Inr (Some 1) \<and>
   interestQueries 1
     (snd (removeMediator (ViewTestMediator6 ''N6'' testName) ''ViewTestMediator6/1'' oneMediator)) = 2"
  by (simp add: oneMediator_eq interestQueries_def) (simp add: scenario_defs interestQueries_def)

section \<open>Registering a Mediator under a name in use\<close>

text \<open>
  C5.  When a Mediator is registered under the name of the Mediator passed to
  \<open>registerMediator\<close>, the call returns with the state as it was: \<open>mediatorMap\<close>,
  \<open>observerMap\<close> and the Observer sequences are unchanged, \<open>retrieveMediator\<close>
  still returns the first instance, and no call into the second instance has been logged
  (neither \<open>initializeNotifier\<close> nor \<open>onRegister\<close>).
\<close>

theorem registerMediator_twice_is_noop:
  "mediatorMap (view w) (getMediatorName mc m2) = Some m1 \<Longrightarrow>
   registerMediator mc m2 w = (Inr (), w) \<and>
   retrieveMediator (getMediatorName mc m2) (snd (registerMediator mc m2 w)) = Object m1 \<and>
   calls (snd (registerMediator mc m2 w)) = calls w"
  by (simp add: registerMediator_def retrieveMediator_def getProperty_def)

theorem registerMediator_twice_is_noop_witness:
  "mediatorMap (view oneMediator)
     (getMediatorName (ViewTestMediator6 ''N6'' (\<lambda>m. ''ViewTestMediator6/1'')) 2) = Some 1 \<and>
   registerMediator (ViewTestMediator6 ''N6'' (\<lambda>m. ''ViewTestMediator6/1'')) 2 oneMediator =
     (Inr (), oneMediator) \<and>
   retrieveMediator ''ViewTestMediator6/1''
     (snd (registerMediator (ViewTestMediator6 ''N6'' (\<lambda>m. ''ViewTestMediator6/1'')) 2 oneMediator))
     = Object 1 \<and>
   calls (snd (registerMediator (ViewTestMediator6 ''N6'' (\<lambda>m. ''ViewTestMediator6/1'')) 2
                 oneMediator)) =
     [InitializeNotifier 1 ''key'', ListNotificationInterests 1, OnRegister 1]"
proof -
  have n: "getMediatorName (ViewTestMediator6 ''N6'' (\<lambda>m. ''ViewTestMediator6/1'')) 2 =
             ''ViewTestMediator6/1''"
    by (simp add: ViewTestMediator6_def)
  have h: "mediatorMap (view oneMediator)
     (getMediatorName (ViewTestMediator6 ''N6'' (\<lambda>m. ''ViewTestMediator6/1'')) 2) = Some 1"
    by (simp add: n oneMediator_eq)
  have c: "calls oneMediator =
             [InitializeNotifier 1 ''key'', ListNotificationInterests 1, OnRegister 1]"
    by (simp add: oneMediator_eq)
  note T = registerMediator_twice_is_noop[OF h, unfolded n]
  have t1: "registerMediator (ViewTestMediator6 ''N6'' (\<lambda>m. ''ViewTestMediator6/1'')) 2 oneMediator =
     (Inr (), oneMediator)"
    using T by (rule conjunct1)
  have t2: "retrieveMediator ''ViewTestMediator6/1''
     (snd (registerMediator (ViewTestMediator6 ''N6'' (\<lambda>m. ''ViewTestMediator6/1'')) 2 oneMediator))
     = Object 1"
    using T by (elim conjE)
  have "calls (snd (registerMediator (ViewTestMediator6 ''N6'' (\<lambda>m. ''ViewTestMediator6/1'')) 2
                 oneMediator)) = calls oneMediator"
    using T by (elim conjE)
  then have t3: "calls (snd (registerMediator (ViewTestMediator6 ''N6'' (\<lambda>m. ''ViewTestMediator6/1'')) 2
                 oneMediator)) =
     [InitializeNotifier 1 ''key'', ListNotificationInterests 1, OnRegister 1]"
    using c by (simp only:)
  show ?thesis
    using h t1 t2 t3 by (intro conjI)
qed

section \<open>Removing from an unknown notification name\<close>




end
